theory Spec2Isabelle
  imports Complex_Main "HOL-Library.Multiset"
begin

section \<open>Python values shared by the analyzers\<close>

text \<open>
  Python floats are modelled as reals. The exceptions that the modelled code can raise are
  values of \<open>py_error\<close>; a computation that may raise returns \<open>py_error + 'a\<close>.
\<close>

datatype py_error =
    ZeroDivisionError
  | IndexError
  | KeyError
  | ValueError
  | OSError
  | CollaboratorError string

text \<open>\<open>d.get(key, default)\<close> on a dictionary.\<close>

definition dict_get :: "('k \<rightharpoonup> 'v) \<Rightarrow> 'k \<Rightarrow> 'v \<Rightarrow> 'v" where
  "dict_get d k dflt = (case d k of None \<Rightarrow> dflt | Some v \<Rightarrow> v)"

section \<open>advanced\_golf\_analyzer.py: the swing phase classifier\<close>

text \<open>
  \<open>AdvancedGolfAnalyzer.detect_swing_phase_ml\<close>. The angle dictionary maps names to
  numbers; phases are the strings the source returns. \<open>frame_num / total_frames\<close> is
  Python's true division, which raises when \<open>total_frames\<close> is zero. The
  \<open>landmarks\<close> argument is not read by the source.
\<close>

type_synonym angles = "string \<rightharpoonup> real"

definition detect_swing_phase_ml ::
  "'lm \<Rightarrow> angles \<Rightarrow> int \<Rightarrow> int \<Rightarrow> py_error + string" where
  "detect_swing_phase_ml landmarks angles frame_num total_frames =
    (if total_frames = 0 then Inl ZeroDivisionError
     else
       let shoulder_rot = dict_get angles ''shoulder_rotation'' 0;
           progress = real_of_int frame_num / real_of_int total_frames
       in Inr
        (if progress < 0.05 then ''address''
         else if progress < 0.15 \<and> shoulder_rot < 30 then ''takeaway''
         else if progress < 0.4 \<and> shoulder_rot < 70 then ''backswing''
         else if progress < 0.5 \<and> shoulder_rot \<ge> 70 then ''top''
         else if progress < 0.55 then ''transition''
         else if progress < 0.6 then ''downswing''
         else if progress < 0.65 then ''impact''
         else if progress < 0.8 then ''follow_through''
         else ''finish''))"

text \<open>
  The transition table of the specification (section 4.6), as a function of the two
  signals only: first match wins.
\<close>

definition phase_table :: "real \<Rightarrow> real \<Rightarrow> string" where
  "phase_table progress rotation =
    (if progress < 0.05 then ''address''
     else if progress < 0.15 \<and> rotation < 30 then ''takeaway''
     else if progress < 0.4 \<and> rotation < 70 then ''backswing''
     else if progress < 0.5 \<and> rotation \<ge> 70 then ''top''
     else if progress < 0.55 then ''transition''
     else if progress < 0.6 then ''downswing''
     else if progress < 0.65 then ''impact''
     else if progress < 0.8 then ''follow_through''
     else ''finish'')"

text \<open>The eleven frames \<open>0, 1, ..., 10\<close> of a clip of ten frames: progress
  \<open>0.0, 0.1, ..., 1.0\<close>, every frame with shoulder rotation 80.\<close>

definition rotation80 :: angles where
  "rotation80 = [''shoulder_rotation'' \<mapsto> 80]"

definition phases_at_rotation80 :: "(py_error + string) list" where
  "phases_at_rotation80 =
     map (\<lambda>i. detect_swing_phase_ml () rotation80 i 10) [0, 1, 2, 3, 4, 5, 6, 7, 8, 9, 10]"

section \<open>enhanced\_golf\_analyzer.py (apps/api): numeric helpers\<close>

text \<open>
  A numpy or Python float that may be \<open>nan\<close>. Only the places where the source can
  produce \<open>nan\<close> use this type; every other float is a real.
  Arithmetic with \<open>nan\<close> gives \<open>nan\<close>, and every comparison with \<open>nan\<close> is false.
\<close>

datatype pyfloat = NaN | Fin real

fun pf_add :: "pyfloat \<Rightarrow> pyfloat \<Rightarrow> pyfloat" where
  "pf_add (Fin a) (Fin b) = Fin (a + b)"
| "pf_add _ _ = NaN"

fun pf_scale :: "pyfloat \<Rightarrow> real \<Rightarrow> pyfloat" where
  "pf_scale (Fin a) c = Fin (a * c)"
| "pf_scale NaN c = NaN"

fun pf_le :: "pyfloat \<Rightarrow> pyfloat \<Rightarrow> bool" where
  "pf_le (Fin a) (Fin b) = (a \<le> b)"
| "pf_le _ _ = False"

text \<open>Python's \<open>sum\<close> over floats that may be \<open>nan\<close>: starts at 0 and adds from the left.\<close>

definition pf_sum :: "pyfloat list \<Rightarrow> pyfloat" where
  "pf_sum xs = foldl pf_add (Fin 0) xs"

text \<open>\<open>math.degrees\<close>, \<open>math.atan2\<close> and \<open>np.clip\<close>.\<close>

definition degrees :: "real \<Rightarrow> real" where
  "degrees r = r * 180 / pi"

definition atan2 :: "real \<Rightarrow> real \<Rightarrow> real" where
  "atan2 b a =
    (if a > 0 then arctan (b / a)
     else if a < 0 \<and> b \<ge> 0 then arctan (b / a) + pi
     else if a < 0 \<and> b < 0 then arctan (b / a) - pi
     else if b > 0 then pi / 2
     else if b < 0 then - (pi / 2)
     else 0)"

definition clip :: "real \<Rightarrow> real \<Rightarrow> real \<Rightarrow> real" where
  "clip v lo hi = min hi (max lo v)"

text \<open>
  Python's \<open>round(v, ndigits)\<close>: to the nearest multiple of \<open>10 ^ (-ndigits)\<close>, halves
  to the even neighbour.
\<close>

definition py_round :: "real \<Rightarrow> int" where
  "py_round v =
    (let f = \<lfloor>v\<rfloor>; d = v - of_int f
     in if d < 1 / 2 then f else if d > 1 / 2 then f + 1 else if even f then f else f + 1)"

definition round_ndigits :: "real \<Rightarrow> nat \<Rightarrow> real" where
  "round_ndigits v n = of_int (py_round (v * 10 ^ n)) / 10 ^ n"

section \<open>enhanced\_golf\_analyzer.py (apps/api): quality assessment\<close>

text \<open>
  \<open>EnhancedGolfAnalyzer.assess_image_quality\<close>. The image is read through three
  measurements: its shape \<open>(h, w)\<close>, the variance of its Laplacian and the mean of its
  gray levels (OpenCV and numpy calls). The three sub-scores are local variables of the
  source; they are separate definitions here.
\<close>

record quality_info =
  total_score :: real
  resolution :: "nat \<times> nat"
  sharpness :: real
  brightness :: real
  quality_level :: string

definition resolution_score :: "nat \<Rightarrow> nat \<Rightarrow> real" where
  "resolution_score h w = min 100 ((real (h * w) / (640 * 480)) * 50)"

definition sharpness_score :: "real \<Rightarrow> real" where
  "sharpness_score laplacian_var = min 100 ((laplacian_var / 100) * 50)"

definition brightness_score :: "real \<Rightarrow> real" where
  "brightness_score mean_brightness = 100 - \<bar>mean_brightness - 128\<bar> / 128 * 100"

definition assess_image_quality :: "nat \<times> nat \<Rightarrow> real \<Rightarrow> real \<Rightarrow> quality_info" where
  "assess_image_quality shape laplacian_var mean_brightness =
    (let h = fst shape; w = snd shape;
         total_mean = (resolution_score h w + sharpness_score laplacian_var
                  + brightness_score mean_brightness) / 3
     in \<lparr> total_score = round_ndigits total_mean 1,
          resolution = (w, h),
          sharpness = round_ndigits laplacian_var 1,
          brightness = round_ndigits mean_brightness 1,
          quality_level =
            (if total_mean \<ge> 70 then ''high'' else if total_mean \<ge> 40 then ''medium'' else ''low'') \<rparr>)"

section \<open>enhanced\_golf\_analyzer.py (apps/api): feature extraction\<close>

text \<open>
  A MediaPipe landmark. \<open>hasattr(landmark, 'visibility')\<close> is the option on the
  visibility field.
\<close>

record landmark =
  lm_x :: real
  lm_y :: real
  lm_z :: real
  lm_visibility :: "real option"

record feature_vector =
  shoulder_rotation :: real
  hip_rotation :: real
  x_factor :: real
  spine_angle :: real
  knee_flex :: pyfloat
  confidence :: real

text \<open>
  \<open>EnhancedGolfAnalyzer.calculate_angle_3points\<close>. The body of the \<open>try\<close> is
  \<open>angle_3points_body\<close>. For landmark objects no operation of the body raises: numpy's
  scalar division by zero gives \<open>nan\<close> (with a RuntimeWarning), \<open>np.clip\<close> and
  \<open>math.acos\<close> pass \<open>nan\<close> on. The product of the norms is zero only when one of the
  two vectors is zero, and then the dot product is zero too, so the quotient is \<open>0/0\<close>.
  The \<open>except\<close> branch returns 90.
\<close>

definition angle_3points_body :: "landmark \<Rightarrow> landmark \<Rightarrow> landmark \<Rightarrow> py_error + pyfloat" where
  "angle_3points_body point1 point2 point3 =
    (let v1 = (lm_x point1 - lm_x point2, lm_y point1 - lm_y point2);
         v2 = (lm_x point3 - lm_x point2, lm_y point3 - lm_y point2);
         dot = fst v1 * fst v2 + snd v1 * snd v2;
         norms = sqrt ((fst v1)\<^sup>2 + (snd v1)\<^sup>2) * sqrt ((fst v2)\<^sup>2 + (snd v2)\<^sup>2)
     in if norms = 0 then Inr NaN
        else Inr (Fin (degrees (arccos (clip (dot / norms) (-1) 1)))))"

definition calculate_angle_3points :: "landmark \<Rightarrow> landmark \<Rightarrow> landmark \<Rightarrow> pyfloat" where
  "calculate_angle_3points point1 point2 point3 =
    (case angle_3points_body point1 point2 point3 of
       Inl e \<Rightarrow> Fin 90
     | Inr angle \<Rightarrow> angle)"

text \<open>
  \<open>EnhancedGolfAnalyzer.extract_golf_features\<close>. The landmark list is indexed up to 28;
  a shorter list raises IndexError inside the \<open>try\<close>, and the \<open>except\<close> returns None.
\<close>

definition np_mean :: "real list \<Rightarrow> real" where
  "np_mean vs = sum_list vs / real (length vs)"

definition extract_golf_features :: "landmark list \<Rightarrow> feature_vector option" where
  "extract_golf_features landmarks =
    (if length landmarks \<le> 28 then None
     else
       let left_shoulder = landmarks ! 11; right_shoulder = landmarks ! 12;
           left_hip = landmarks ! 23; right_hip = landmarks ! 24;
           left_knee = landmarks ! 25; right_knee = landmarks ! 26;
           left_ankle = landmarks ! 27; right_ankle = landmarks ! 28;
           shoulder_dx = lm_x right_shoulder - lm_x left_shoulder;
           shoulder_dy = lm_y right_shoulder - lm_y left_shoulder;
           shoulder_rot = degrees (atan2 shoulder_dy shoulder_dx);
           hip_dx = lm_x right_hip - lm_x left_hip;
           hip_dy = lm_y right_hip - lm_y left_hip;
           hip_rot = degrees (atan2 hip_dy hip_dx);
           xf = \<bar>shoulder_rot - hip_rot\<bar>;
           mid_shoulder_x = (lm_x left_shoulder + lm_x right_shoulder) / 2;
           mid_shoulder_y = (lm_y left_shoulder + lm_y right_shoulder) / 2;
           mid_hip_x = (lm_x left_hip + lm_x right_hip) / 2;
           mid_hip_y = (lm_y left_hip + lm_y right_hip) / 2;
           spine = degrees (atan2 \<bar>mid_shoulder_x - mid_hip_x\<bar> \<bar>mid_hip_y - mid_shoulder_y\<bar>);
           left_knee_angle = calculate_angle_3points left_hip left_knee left_ankle;
           right_knee_angle = calculate_angle_3points right_hip right_knee right_ankle;
           avg_knee_flex =
             pf_add (Fin 180) (pf_scale (pf_scale (pf_add left_knee_angle right_knee_angle) (1 / 2)) (- 1));
           key_landmarks = [left_shoulder, right_shoulder, left_hip, right_hip, left_knee, right_knee];
           visibility_scores = List.map_filter lm_visibility key_landmarks;
           avg_confidence = (if visibility_scores \<noteq> [] then np_mean visibility_scores else 0.8)
       in Some \<lparr> shoulder_rotation = shoulder_rot,
                 hip_rotation = hip_rot,
                 x_factor = xf,
                 spine_angle = spine,
                 knee_flex = avg_knee_flex,
                 confidence = avg_confidence \<rparr>)"

section \<open>enhanced\_golf\_analyzer.py (apps/api): confidence-weighted voting\<close>

text \<open>
  One entry of the list built by \<open>multi_scale_processing\<close>: the dictionary with keys
  \<open>features\<close>, \<open>threshold_used\<close>, \<open>stage\<close>, \<open>scale\<close>, and \<open>voting_info\<close> once the
  voter has added it.
\<close>

record voting_info =
  num_results :: nat
  total_weight :: real
  scales_used :: "real list"
  stages_used :: "nat list"

record detection =
  features :: feature_vector
  threshold_used :: real
  stage :: nat
  scale :: real
  voting_info :: "voting_info option"

text \<open>Python's \<open>max(results, key=...)\<close>: the first element whose key is maximal.\<close>

definition max_by :: "('a \<Rightarrow> real) \<Rightarrow> 'a \<Rightarrow> 'a list \<Rightarrow> 'a" where
  "max_by key first rest = foldl (\<lambda>best r. if key r > key best then r else best) first rest"

definition weighted_angle :: "(feature_vector \<Rightarrow> real) \<Rightarrow> detection list \<Rightarrow> real \<Rightarrow> real" where
  "weighted_angle key results weight_sum =
     sum_list (map (\<lambda>r. key (features r) * confidence (features r)) results) / weight_sum"

definition weighted_knee_flex :: "detection list \<Rightarrow> real \<Rightarrow> pyfloat" where
  "weighted_knee_flex results weight_sum =
     pf_scale (pf_sum (map (\<lambda>r. pf_scale (knee_flex (features r)) (confidence (features r))) results))
              (1 / weight_sum)"

text \<open>
  \<open>EnhancedGolfAnalyzer.confidence_weighted_voting\<close>. The source updates the feature
  dictionary of the selected entry in place and returns that entry; the model returns
  the updated entry.
\<close>

definition confidence_weighted_voting :: "detection list \<Rightarrow> detection option" where
  "confidence_weighted_voting results =
    (case results of
       [] \<Rightarrow> None
     | first # rest \<Rightarrow>
        let weight_sum = sum_list (map (\<lambda>r. confidence (features r)) results)
        in if weight_sum = 0 then Some first
           else
             let best_result = max_by (\<lambda>r. confidence (features r)) first rest;
                 fused = (features best_result)
                   \<lparr> shoulder_rotation := weighted_angle shoulder_rotation results weight_sum,
                     hip_rotation := weighted_angle hip_rotation results weight_sum,
                     x_factor := weighted_angle x_factor results weight_sum,
                     spine_angle := weighted_angle spine_angle results weight_sum,
                     knee_flex := weighted_knee_flex results weight_sum \<rparr>
             in Some (best_result
                  \<lparr> features := fused,
                    voting_info := Some \<lparr> num_results = length results,
                                          total_weight = round_ndigits weight_sum 3,
                                          scales_used = map scale results,
                                          stages_used = map stage results \<rparr> \<rparr>))"

text \<open>
  Two attempts of one frame, at scales 0.8 and 1.2, with the same confidence. Each
  satisfies \<open>x_factor = \<bar>shoulder_rotation - hip_rotation\<bar>\<close>.
\<close>

definition attempt_a :: detection where
  "attempt_a =
     \<lparr> features = \<lparr> shoulder_rotation = 10, hip_rotation = 0, x_factor = 10,
                    spine_angle = 25, knee_flex = Fin 25, confidence = 9/10 \<rparr>,
       threshold_used = 1/10, stage = 1, scale = 8/10, voting_info = None \<rparr>"

definition attempt_b :: detection where
  "attempt_b =
     \<lparr> features = \<lparr> shoulder_rotation = 0, hip_rotation = 10, x_factor = 10,
                    spine_angle = 27, knee_flex = Fin 30, confidence = 9/10 \<rparr>,
       threshold_used = 15/100, stage = 2, scale = 12/10, voting_info = None \<rparr>"

section \<open>enhanced\_golf\_analyzer.py (apps/api): the single-frame score\<close>

text \<open>
  \<open>EnhancedGolfAnalyzer.calculate_enhanced_score\<close>. \<open>not features\<close> holds for None and
  for the empty dictionary; both are the value None here.
\<close>

definition calculate_enhanced_score :: "feature_vector option \<Rightarrow> quality_info \<Rightarrow> int" where
  "calculate_enhanced_score features_opt quality =
    (case features_opt of
       None \<Rightarrow> 65
     | Some f \<Rightarrow>
        let base0 = 88;
            xf = x_factor f;
            base1 = (if 40 \<le> xf \<and> xf \<le> 50 then base0 + 8
                     else if 30 \<le> xf \<and> xf \<le> 60 then base0 + 5
                     else if 25 \<le> xf \<and> xf \<le> 65 then base0 + 2
                     else base0 - 3);
            spine = spine_angle f;
            base2 = (if 20 \<le> spine \<and> spine \<le> 30 then base1 + 6
                     else if 15 \<le> spine \<and> spine \<le> 35 then base1 + 3
                     else base1);
            knee = knee_flex f;
            base3 = (if pf_le (Fin 20) knee \<and> pf_le knee (Fin 35) then base2 + 3 else base2);
            conf = confidence f;
            base4 = (if conf > 0.9 then base3 + 6
                     else if conf > 0.8 then base3 + 4
                     else if conf > 0.7 then base3 + 2
                     else base3);
            base5 = (if quality_level quality = ''high'' then base4 + 3
                     else if quality_level quality = ''medium'' then base4 + 1
                     else base4)
        in max 78 (min 96 base5))"

text \<open>The finite value of a float, for stating sums; 0 stands in for \<open>nan\<close>.\<close>

fun the_fin :: "pyfloat \<Rightarrow> real" where
  "the_fin (Fin a) = a"
| "the_fin NaN = 0"

section \<open>A pose used as a concrete input\<close>

text \<open>
  Thirty-three landmarks of a golfer at address, in MediaPipe's normalized image
  coordinates (y grows downwards): nose 0, shoulders 11/12, elbows 13/14, wrists 15/16,
  hips 23/24, knees 25/26, ankles 27/28. The remaining indices are placed at the
  centre of the image.
\<close>

definition landmark_at :: "real \<Rightarrow> real \<Rightarrow> landmark" where
  "landmark_at a b = \<lparr> lm_x = a, lm_y = b, lm_z = 0, lm_visibility = Some (9/10) \<rparr>"

definition pose_point :: "nat \<Rightarrow> landmark" where
  "pose_point i =
    (if i = 0 then landmark_at (50/100) (20/100)
       else if i = 11 then landmark_at (42/100) (30/100)
       else if i = 12 then landmark_at (58/100) (32/100)
       else if i = 13 then landmark_at (42/100) (45/100)
       else if i = 14 then landmark_at (58/100) (45/100)
       else if i = 15 then landmark_at (48/100) (58/100)
       else if i = 16 then landmark_at (52/100) (58/100)
       else if i = 23 then landmark_at (45/100) (55/100)
       else if i = 24 then landmark_at (55/100) (55/100)
       else if i = 25 then landmark_at (43/100) (75/100)
       else if i = 26 then landmark_at (57/100) (75/100)
       else if i = 27 then landmark_at (42/100) (95/100)
       else if i = 28 then landmark_at (58/100) (95/100)
       else landmark_at (50/100) (50/100))"

definition golf_pose :: "landmark list" where
  "golf_pose = map pose_point [0..<33]"

section \<open>advanced\_golf\_analyzer.py: analysis of a video timeline\<close>

text \<open>
  The functions below take the timeline that \<open>analyze_video_frames\<close> collects: per
  detected frame a landmark dictionary (\<open>'pose_<i>'\<close> to a landmark), an angle
  dictionary and a phase name. Angle values are finite numbers: a frame whose shoulder
  rotation is \<open>nan\<close> (coincident shoulder or hip landmarks make
  \<open>calculate_shoulder_rotation_3d\<close> divide zero by zero) is outside this model. The
  Korean message texts of the source are represented by ASCII tags.
\<close>

type_synonym pose_dict = "string \<rightharpoonup> landmark"

definition np_std :: "real list \<Rightarrow> real" where
  "np_std vs = sqrt (np_mean (map (\<lambda>v. (v - np_mean vs)\<^sup>2) vs))"

text \<open>\<open>np.mean\<close> of a possibly empty list: \<open>nan\<close> (with a warning) when empty.\<close>

definition np_mean_pf :: "real list \<Rightarrow> pyfloat" where
  "np_mean_pf vs = (if vs = [] then NaN else Fin (np_mean vs))"

text \<open>Python's \<open>max\<close> and \<open>min\<close> of a non-empty list of numbers.\<close>

definition list_max :: "real list \<Rightarrow> real" where
  "list_max vs = foldl max (hd vs) (tl vs)"

definition list_min :: "real list \<Rightarrow> real" where
  "list_min vs = foldl min (hd vs) (tl vs)"

text \<open>
  \<open>[all_angles[i] for i, p in enumerate(swing_phases) if pred(p)]\<close>: raises IndexError
  at the first selected index beyond the end of \<open>all_angles\<close>.
\<close>

fun select_from :: "nat \<Rightarrow> 'a list \<Rightarrow> string list \<Rightarrow> (string \<Rightarrow> bool) \<Rightarrow> py_error + 'a list" where
  "select_from i all_angles [] pred = Inr []"
| "select_from i all_angles (p # ps) pred =
    (if pred p then
       (if i < length all_angles then
          (case select_from (Suc i) all_angles ps pred of
             Inl e \<Rightarrow> Inl e
           | Inr rest \<Rightarrow> Inr (all_angles ! i # rest))
        else Inl IndexError)
     else select_from (Suc i) all_angles ps pred)"

definition select_phase :: "'a list \<Rightarrow> string list \<Rightarrow> (string \<Rightarrow> bool) \<Rightarrow> py_error + 'a list" where
  "select_phase all_angles swing_phases pred = select_from 0 all_angles swing_phases pred"

subsection \<open>\<open>load_ideal_angles\<close> and \<open>analyze_phases\<close>\<close>

definition ideal_angles :: "string \<Rightarrow> (string \<times> real) list" where
  "ideal_angles phase =
    (if phase = ''address'' then
       [(''spine_angle'', 30), (''knee_flex'', 145), (''shoulder_tilt'', 5), (''hip_tilt'', 10)]
     else if phase = ''backswing'' then
       [(''shoulder_rotation'', 90), (''hip_rotation'', 45), (''x_factor'', 45),
        (''left_arm_angle'', 170), (''wrist_hinge'', 90)]
     else if phase = ''top'' then
       [(''shoulder_rotation'', 95), (''hip_rotation'', 45), (''x_factor'', 50),
        (''club_shaft_angle'', 0), (''left_arm_angle'', 175)]
     else if phase = ''impact'' then
       [(''shoulder_open'', 30), (''hip_open'', 45), (''spine_angle'', 25),
        (''shaft_lean'', 8), (''knee_flex'', 130)]
     else if phase = ''follow_through'' then
       [(''shoulder_rotation'', - 90), (''hip_rotation'', - 80), (''weight_transfer'', 90),
        (''spine_extension'', 5)]
     else [])"

definition frame_phase_score :: "(string \<times> real) list \<Rightarrow> angles \<Rightarrow> real" where
  "frame_phase_score ideal angles =
     max 0 (foldl (\<lambda>phase_score (key, ideal_value).
                     case angles key of
                       None \<Rightarrow> phase_score
                     | Some v \<Rightarrow> phase_score - min (\<bar>v - ideal_value\<bar> * 0.5) 20)
                  100 ideal)"

record phase_detail =
  average_score :: real
  stability :: real
  frame_count :: nat

record phase_analysis =
  phase_scores :: "(string \<times> real) list"
  phase_details :: "(string \<times> phase_detail) list"
  phase_overall :: pyfloat

text \<open>
  The loop over \<open>unique_phases = list(set(swing_phases))\<close>. Python fixes no order for
  the set; the model takes the phases in order of first occurrence. The two result
  dictionaries are association lists in that order.
\<close>

fun analyze_phases_loop ::
  "angles list \<Rightarrow> string list \<Rightarrow> string list
   \<Rightarrow> py_error + ((string \<times> real) list \<times> (string \<times> phase_detail) list)" where
  "analyze_phases_loop all_angles swing_phases [] = Inr ([], [])"
| "analyze_phases_loop all_angles swing_phases (phase # phases) =
    (case select_phase all_angles swing_phases (\<lambda>p. p = phase) of
       Inl e \<Rightarrow> Inl e
     | Inr phase_angles \<Rightarrow>
        let scores = map (frame_phase_score (ideal_angles phase)) phase_angles;
            detail = \<lparr> average_score = np_mean scores,
                       stability = np_std scores,
                       frame_count = length phase_angles \<rparr>
        in (case analyze_phases_loop all_angles swing_phases phases of
              Inl e \<Rightarrow> Inl e
            | Inr (ss, ds) \<Rightarrow> Inr ((phase, np_mean scores) # ss, (phase, detail) # ds)))"

definition analyze_phases :: "angles list \<Rightarrow> string list \<Rightarrow> py_error + phase_analysis" where
  "analyze_phases all_angles swing_phases =
    (case analyze_phases_loop all_angles swing_phases (remdups swing_phases) of
       Inl e \<Rightarrow> Inl e
     | Inr (ss, ds) \<Rightarrow>
        Inr \<lparr> phase_scores = ss, phase_details = ds, phase_overall = np_mean_pf (map snd ss) \<rparr>)"

subsection \<open>\<open>analyze_tempo_advanced\<close>\<close>

record tempo_analysis =
  backswing_time :: real
  downswing_time :: real
  tempo_ratio :: real
  tempo_score :: real
  tempo_evaluation :: string

definition transitions_of :: "string list \<Rightarrow> (string \<rightharpoonup> nat)" where
  "transitions_of swing_phases =
     foldl (\<lambda>transitions i.
              if swing_phases ! i \<noteq> swing_phases ! (i - 1)
              then transitions(swing_phases ! i \<mapsto> i) else transitions)
           Map.empty [1..<length swing_phases]"

text \<open>\<open>fps\<close> is a Python float; dividing by \<open>0.0\<close> raises ZeroDivisionError.\<close>

definition analyze_tempo_advanced :: "string list \<Rightarrow> real \<Rightarrow> py_error + tempo_analysis" where
  "analyze_tempo_advanced swing_phases fps =
    (let transitions = transitions_of swing_phases;
         backswing_frames = int (dict_get transitions ''top'' 30)
                            - int (dict_get transitions ''takeaway'' 0);
         downswing_frames = int (dict_get transitions ''impact'' 60)
                            - int (dict_get transitions ''top'' 30)
     in if fps = 0 then Inl ZeroDivisionError
        else
          let bs_time = real_of_int backswing_frames / fps;
              ds_time = real_of_int downswing_frames / fps;
              ratio = (if ds_time > 0 then bs_time / ds_time else 3);
              ideal_ratio = 3;
              score = 100 - \<bar>ratio - ideal_ratio\<bar> * 20
          in Inr \<lparr> backswing_time = bs_time,
                    downswing_time = ds_time,
                    tempo_ratio = ratio,
                    tempo_score = max 0 (min 100 score),
                    tempo_evaluation =
                      (if \<bar>ratio - 3\<bar> < 0.3 then ''Excellent''
                       else if \<bar>ratio - 3\<bar> < 0.5 then ''Good'' else ''Needs Work'') \<rparr>)"

subsection \<open>\<open>analyze_consistency\<close>\<close>

record consistency_analysis =
  consistency_score :: real
  consistency_details :: "(string \<times> real) list option"
  consistency_evaluation :: "string option"

definition angle_consistency :: "angles list \<Rightarrow> string \<Rightarrow> real" where
  "angle_consistency all_angles key =
     100 - min (np_std (map (\<lambda>a. dict_get a key 0) all_angles) * 2) 50"

definition analyze_consistency :: "angles list \<Rightarrow> consistency_analysis" where
  "analyze_consistency all_angles =
    (if length all_angles < 10 then
       \<lparr> consistency_score = 70, consistency_details = None, consistency_evaluation = None \<rparr>
     else
       let key_angles = [''shoulder_rotation'', ''hip_rotation'', ''spine_angle''];
           consistencies = map (\<lambda>key. (key, angle_consistency all_angles key)) key_angles;
           overall_consistency = np_mean (map snd consistencies)
       in \<lparr> consistency_score = overall_consistency,
            consistency_details = Some consistencies,
            consistency_evaluation =
              Some (if overall_consistency > 85 then ''Very Consistent''
                    else if overall_consistency > 70 then ''Consistent''
                    else ''Inconsistent'') \<rparr>)"

subsection \<open>\<open>analyze_biomechanics\<close>\<close>

record biomechanics_analysis =
  biomechanics_score :: real
  biomechanics_details :: "(string \<times> real) list"
  max_x_factor :: real
  biomechanics_evaluation :: string

text \<open>One frame of the weight-shift loop: None when a foot or the nose is missing.\<close>

definition weight_left :: "pose_dict \<Rightarrow> real option" where
  "weight_left lm =
    (case (lm ''pose_27'', lm ''pose_28'', lm ''pose_0'') of
       (Some left_foot, Some right_foot, Some nose) \<Rightarrow>
         let left_dist = \<bar>lm_x nose - lm_x left_foot\<bar>;
             right_dist = \<bar>lm_x nose - lm_x right_foot\<bar>
         in Some (right_dist / (left_dist + right_dist + 0.001) * 100)
     | _ \<Rightarrow> None)"

definition analyze_biomechanics :: "pose_dict list \<Rightarrow> angles list \<Rightarrow> biomechanics_analysis" where
  "analyze_biomechanics all_landmarks all_angles =
    (let x_factors = map (\<lambda>a. dict_get a ''x_factor'' 0) all_angles;
         max_xf = (if x_factors \<noteq> [] then list_max x_factors else 0);
         s_x_factor = min 100 (max_xf * 2);
         weight_shifts = List.map_filter weight_left all_landmarks;
         s_weight_transfer =
           (if all_landmarks \<noteq> [] \<and> weight_shifts \<noteq> []
            then min 100 ((list_max weight_shifts - list_min weight_shifts) * 2) else 0);
         spine_angles = map (\<lambda>a. dict_get a ''spine_angle'' 30) all_angles;
         spine_stability = (if spine_angles \<noteq> [] then 100 - np_std spine_angles * 5 else 70);
         s_spine_stability = max 0 (min 100 spine_stability);
         s_balance = (s_weight_transfer + s_spine_stability) / 2;
         scores = [(''x_factor'', s_x_factor), (''weight_transfer'', s_weight_transfer),
                   (''spine_stability'', s_spine_stability), (''balance'', s_balance)];
         overall_bio = np_mean (map snd scores)
     in \<lparr> biomechanics_score = overall_bio,
          biomechanics_details = scores,
          max_x_factor = max_xf,
          biomechanics_evaluation =
            (if overall_bio > 85 then ''Excellent''
             else if overall_bio > 70 then ''Good'' else ''Needs Improvement'') \<rparr>)"

subsection \<open>\<open>detect_advanced_faults\<close> and \<open>check_lateral_movement\<close>\<close>

datatype severity = Low | Medium | High | Critical

text \<open>
  The message of a fault; the number is the value the source formats into the text with
  \<open>:.0f\<close>.
\<close>

datatype fault_message =
    OverSwingMessage int
  | EarlyExtensionMessage
  | SwayMessage int
  | CastingMessage

record fault =
  fault_type :: string
  fault_severity :: severity
  fault_value :: real
  fault_message :: fault_message
  fault_fix :: string

text \<open>
  \<open>check_lateral_movement\<close> returns \<open>np.random.uniform(0, 0.15)\<close> and reads nothing
  of its argument. The number drawn from numpy's global generator is the parameter
  \<open>lateral_draw\<close>, a value in \<open>[0, 0.15)\<close>.
\<close>

definition check_lateral_movement :: "angles list \<Rightarrow> real \<Rightarrow> real" where
  "check_lateral_movement all_angles lateral_draw = lateral_draw"

text \<open>
  \<open>detect_advanced_faults\<close>. The five list comprehensions over the timeline are taken
  first: each can only raise IndexError and has no other effect. The four checks then
  append their faults in the order of the source.
\<close>

definition detect_advanced_faults ::
  "angles list \<Rightarrow> string list \<Rightarrow> real \<Rightarrow> py_error + fault list" where
  "detect_advanced_faults all_angles swing_phases lateral_draw =
    (case select_phase all_angles swing_phases (\<lambda>p. p = ''top'') of
       Inl e \<Rightarrow> Inl e
     | Inr top_angles \<Rightarrow>
    (case select_phase all_angles swing_phases (\<lambda>p. p = ''impact'') of
       Inl e \<Rightarrow> Inl e
     | Inr impact_angles \<Rightarrow>
    (case select_phase all_angles swing_phases (\<lambda>p. p = ''address'') of
       Inl e \<Rightarrow> Inl e
     | Inr address_angles \<Rightarrow>
    (case select_phase all_angles swing_phases (\<lambda>p. p = ''backswing'') of
       Inl e \<Rightarrow> Inl e
     | Inr backswing_angles \<Rightarrow>
    (case select_phase all_angles swing_phases (\<lambda>p. p \<in> set [''transition'', ''downswing'']) of
       Inl e \<Rightarrow> Inl e
     | Inr transition_angles \<Rightarrow>
       let over_swing =
             (if top_angles \<noteq> [] then
                let max_shoulder =
                      list_max (map (\<lambda>a. dict_get a ''shoulder_rotation'' 0) top_angles)
                in if max_shoulder > 110 then
                     [\<lparr> fault_type = ''over_swing'', fault_severity = Medium,
                        fault_value = max_shoulder,
                        fault_message = OverSwingMessage (py_round max_shoulder),
                        fault_fix = ''limit the backswing to 90-100 degrees'' \<rparr>]
                   else []
              else []);
           early_extension =
             (case filter (\<lambda>spine_change. spine_change > 10)
                     (map (\<lambda>a. \<bar>dict_get a ''spine_angle'' 30 - 30\<bar>) impact_angles) of
                [] \<Rightarrow> []
              | spine_change # _ \<Rightarrow>
                [\<lparr> fault_type = ''early_extension'', fault_severity = High,
                   fault_value = spine_change,
                   fault_message = EarlyExtensionMessage,
                   fault_fix = ''keep the spine angle while rotating'' \<rparr>]);
           sway =
             (if address_angles \<noteq> [] \<and> backswing_angles \<noteq> [] then
                let lateral_movement = check_lateral_movement all_angles lateral_draw
                in if lateral_movement > 0.1 then
                     [\<lparr> fault_type = ''sway'', fault_severity = High,
                        fault_value = lateral_movement * 100,
                        fault_message = SwayMessage (py_round (lateral_movement * 100)),
                        fault_fix = ''rotate around a fixed axis'' \<rparr>]
                   else []
              else []);
           casting =
             (case filter (\<lambda>wrist_angle. wrist_angle < 70)
                     (map (\<lambda>a. dict_get a ''wrist_hinge'' 90) transition_angles) of
                [] \<Rightarrow> []
              | wrist_angle # _ \<Rightarrow>
                [\<lparr> fault_type = ''casting'', fault_severity = High,
                   fault_value = wrist_angle,
                   fault_message = CastingMessage,
                   fault_fix = ''keep the wrist angle in the downswing'' \<rparr>])
       in Inr (over_swing @ early_extension @ sway @ casting))))))"

subsection \<open>\<open>generate_recommendations\<close>\<close>

fun severity_rank :: "severity \<Rightarrow> int" where
  "severity_rank Critical = 4"
| "severity_rank High = 3"
| "severity_rank Medium = 2"
| "severity_rank Low = 1"

text \<open>\<open>sorted(faults, key=rank, reverse=True)\<close>: descending and stable.\<close>

definition generate_recommendations :: "fault list \<Rightarrow> real \<Rightarrow> string list" where
  "generate_recommendations faults score =
    (let general =
           (if score \<ge> 90 then ''excellent swing, keep it consistent''
            else if score \<ge> 80 then ''good swing, refine the details''
            else if score \<ge> 70 then ''good basics, fix the main faults''
            else ''the basics need work'');
         sorted_faults = sort_key (\<lambda>f. - severity_rank (fault_severity f)) faults;
         fixes = map fault_fix (take 3 sorted_faults);
         has = (\<lambda>t. list_ex (\<lambda>f. fault_type f = t) faults)
     in [general] @ fixes
        @ (if has ''over_swing'' then [''drill: wall drill''] else [])
        @ (if has ''early_extension'' then [''drill: chair drill''] else [])
        @ (if has ''sway'' then [''drill: fixed head drill''] else []))"

subsection \<open>\<open>calculate_weighted_score\<close> and \<open>comprehensive_analysis\<close>\<close>

text \<open>
  The \<open>components\<close> dictionary: \<open>'phase_scores'\<close> is a dictionary of per-phase scores
  or a number (the \<open>isinstance\<close> test); the other entries are numbers read with
  \<open>.get\<close>.
\<close>

record components =
  comp_phase_scores :: "(string \<times> real) list + real"
  comp_numbers :: "string \<rightharpoonup> real"

definition weights :: "string \<rightharpoonup> real" where
  "weights = [''phase_scores'' \<mapsto> 0.3, ''tempo_score'' \<mapsto> 0.2,
              ''consistency_score'' \<mapsto> 0.2, ''biomechanics_score'' \<mapsto> 0.3]"

text \<open>
  Python's \<open>min(a, v)\<close> with a possibly-\<open>nan\<close> second argument: \<open>v\<close> when \<open>v < a\<close>,
  else \<open>a\<close>; a \<open>nan\<close> compares false and leaves \<open>a\<close>.
\<close>

fun py_min2 :: "real \<Rightarrow> pyfloat \<Rightarrow> real" where
  "py_min2 a (Fin v) = (if v < a then v else a)"
| "py_min2 a NaN = a"

definition component_score :: "components \<Rightarrow> string \<Rightarrow> pyfloat" where
  "component_score comps key =
    (if key = ''phase_scores'' then
       (case comp_phase_scores comps of
          Inl d \<Rightarrow> np_mean_pf (map snd d)
        | Inr v \<Rightarrow> Fin v)
     else Fin (dict_get (comp_numbers comps) key 70))"

definition calculate_weighted_score :: "components \<Rightarrow> real" where
  "calculate_weighted_score comps =
    (let base_score =
           foldl (\<lambda>base key. pf_add base (pf_scale (component_score comps key)
                                                     (dict_get weights key 0.25)))
                 (Fin 0)
                 [''phase_scores'', ''tempo_score'', ''consistency_score'', ''biomechanics_score''];
         final_score = pf_add base_score (Fin (- dict_get (comp_numbers comps) ''fault_penalty'' 0))
     in max 0 (py_min2 100 final_score))"

record video_result =
  vr_success :: bool
  overall_score :: real
  vr_confidence :: real
  vr_phase_analysis :: phase_analysis
  vr_tempo_analysis :: tempo_analysis
  vr_consistency :: consistency_analysis
  vr_biomechanics :: biomechanics_analysis
  vr_faults :: "fault list"
  vr_recommendations :: "string list"

definition comprehensive_analysis ::
  "pose_dict list \<Rightarrow> angles list \<Rightarrow> string list \<Rightarrow> real \<Rightarrow> real \<Rightarrow> py_error + video_result" where
  "comprehensive_analysis all_landmarks all_angles swing_phases fps lateral_draw =
    (case analyze_phases all_angles swing_phases of
       Inl e \<Rightarrow> Inl e
     | Inr pa \<Rightarrow>
    (case analyze_tempo_advanced swing_phases fps of
       Inl e \<Rightarrow> Inl e
     | Inr ta \<Rightarrow>
       let consistency = analyze_consistency all_angles;
           biomechanics = analyze_biomechanics all_landmarks all_angles
       in (case detect_advanced_faults all_angles swing_phases lateral_draw of
             Inl e \<Rightarrow> Inl e
           | Inr faults \<Rightarrow>
              let score = calculate_weighted_score
                    \<lparr> comp_phase_scores = Inl (phase_scores pa),
                      comp_numbers = [''tempo_score'' \<mapsto> tempo_score ta,
                                      ''consistency_score'' \<mapsto> consistency_score consistency,
                                      ''biomechanics_score'' \<mapsto> biomechanics_score biomechanics,
                                      ''fault_penalty'' \<mapsto> real (length faults * 5)] \<rparr>
              in Inr \<lparr> vr_success = True,
                        overall_score = min 100 score,
                        vr_confidence = 0.95,
                        vr_phase_analysis = pa,
                        vr_tempo_analysis = ta,
                        vr_consistency = consistency,
                        vr_biomechanics = biomechanics,
                        vr_faults = faults,
                        vr_recommendations = generate_recommendations faults score \<rparr>)))"

text \<open>
  A timeline of two frames of a ten-frame clip: frame 0 (address) and frame 2
  (backswing, shoulder rotation 40).
\<close>

definition clip_angles :: "angles list" where
  "clip_angles =
     [[''shoulder_rotation'' \<mapsto> 5, ''hip_rotation'' \<mapsto> 45, ''x_factor'' \<mapsto> - 40,
       ''spine_angle'' \<mapsto> 30, ''wrist_hinge'' \<mapsto> 90],
      [''shoulder_rotation'' \<mapsto> 40, ''hip_rotation'' \<mapsto> 45, ''x_factor'' \<mapsto> - 5,
       ''spine_angle'' \<mapsto> 30, ''wrist_hinge'' \<mapsto> 90]]"

definition clip_phases :: "string list" where
  "clip_phases = [''address'', ''backswing'']"

definition clip_landmarks :: "pose_dict list" where
  "clip_landmarks =
     [[''pose_0'' \<mapsto> landmark_at (50/100) (20/100),
       ''pose_27'' \<mapsto> landmark_at (42/100) (95/100),
       ''pose_28'' \<mapsto> landmark_at (58/100) (95/100)],
      [''pose_0'' \<mapsto> landmark_at (52/100) (20/100),
       ''pose_27'' \<mapsto> landmark_at (42/100) (95/100),
       ''pose_28'' \<mapsto> landmark_at (58/100) (95/100)]]"

text \<open>Two possible values of the random draw of \<open>check_lateral_movement\<close>.\<close>

definition draw_first_run :: real where
  "draw_first_run = 5/100"

definition draw_second_run :: real where
  "draw_second_run = 12/100"

section \<open>Input text handling shared by the analyzers\<close>

text \<open>\<open>s.split(sep)\<close> for a one-character separator, and \<open>s.replace(c, '')\<close>.\<close>

fun split_on :: "char \<Rightarrow> string \<Rightarrow> string list" where
  "split_on sep [] = [[]]"
| "split_on sep (c # cs) =
    (if c = sep then [] # split_on sep cs
     else (c # hd (split_on sep cs)) # tl (split_on sep cs))"

definition remove_char :: "char \<Rightarrow> string \<Rightarrow> string" where
  "remove_char c s = filter (\<lambda>d. d \<noteq> c) s"

text \<open>
  \<open>if s.startswith('data:'): s = s.split(',')[1]\<close>: IndexError when the text has no
  comma.
\<close>

definition strip_data_url :: "string \<Rightarrow> py_error + string" where
  "strip_data_url s =
    (if take 5 s = ''data:'' then
       (case split_on CHR '','' s of
          _ # second # _ \<Rightarrow> Inr second
        | _ \<Rightarrow> Inl IndexError)
     else Inr s)"

section \<open>golf\_analyzer.py: the analyzer with a result cache\<close>

text \<open>
  The external calls of \<open>GolfSwingAnalyzer.analyze_image\<close>: base64 decoding, image
  decoding (\<open>cv2.imdecode\<close> raises on an empty buffer and returns None for data that
  is no image), Python's \<open>hash\<close> of the pixel bytes, and the detector (resize, colour
  conversion and \<open>self.pose.process\<close>, which either raise or return the landmarks, if
  any).
\<close>

record 'img vision =
  b64decode :: "string \<Rightarrow> py_error + nat list"
  imdecode :: "nat list \<Rightarrow> py_error + 'img option"
  image_hash :: "'img \<Rightarrow> int"
  detect_pose :: "'img \<Rightarrow> py_error + landmark list option"

record swing_fault =
  sf_type :: string
  sf_severity :: string
  sf_message :: string
  sf_fix :: string

text \<open>\<open>GolfSwingAnalyzer.calculate_golf_angles\<close>; indexing a short list raises IndexError.\<close>

definition calculate_golf_angles :: "landmark list \<Rightarrow> py_error + angles" where
  "calculate_golf_angles landmarks =
    (if length landmarks \<le> 24 then Inl IndexError
     else
       let left_shoulder = landmarks ! 11; right_shoulder = landmarks ! 12;
           left_hip = landmarks ! 23; right_hip = landmarks ! 24;
           shoulder_angle = \<bar>lm_x left_shoulder - lm_x right_shoulder\<bar> * 180;
           hip_angle = \<bar>lm_x left_hip - lm_x right_hip\<bar> * 150;
           spine = \<bar>(lm_y left_shoulder + lm_y right_shoulder) / 2
                   - (lm_y left_hip + lm_y right_hip) / 2\<bar> * 90
       in Inr [''shoulder_rotation'' \<mapsto> shoulder_angle,
               ''hip_rotation'' \<mapsto> hip_angle,
               ''x_factor'' \<mapsto> \<bar>shoulder_angle - hip_angle\<bar>,
               ''spine_angle'' \<mapsto> spine])"

text \<open>\<open>GolfSwingAnalyzer.detect_swing_faults\<close>.\<close>

definition detect_swing_faults :: "angles \<Rightarrow> landmark list \<Rightarrow> swing_fault list" where
  "detect_swing_faults angles landmarks =
    (let get = (\<lambda>key. dict_get angles key 0) in
       (if get ''shoulder_rotation'' > 110 then
          [\<lparr> sf_type = ''over_swing'', sf_severity = ''medium'',
             sf_message = ''backswing too long'', sf_fix = ''stop the club at parallel'' \<rparr>]
        else if get ''shoulder_rotation'' < 75 then
          [\<lparr> sf_type = ''insufficient_turn'', sf_severity = ''high'',
             sf_message = ''not enough shoulder turn'', sf_fix = ''turn the shoulders to 90 degrees'' \<rparr>]
        else [])
     @ (if get ''x_factor'' < 25 then
          [\<lparr> sf_type = ''poor_x_factor'', sf_severity = ''medium'',
             sf_message = ''x-factor too small'', sf_fix = ''increase the separation'' \<rparr>]
        else [])
     @ (if get ''knee_flex'' < 130 \<or> get ''knee_flex'' > 170 then
          [\<lparr> sf_type = ''knee_flex_issue'', sf_severity = ''low'',
             sf_message = ''knee angle not adequate'', sf_fix = ''flex the knees at address'' \<rparr>]
        else [])
     @ (if get ''elbow_angle'' < 150 then
          [\<lparr> sf_type = ''bent_arm'', sf_severity = ''medium'',
             sf_message = ''arm bent in the backswing'', sf_fix = ''keep the left arm straight'' \<rparr>]
        else [])
     @ (if get ''spine_angle'' < 20 \<or> get ''spine_angle'' > 40 then
          [\<lparr> sf_type = ''spine_angle_issue'', sf_severity = ''high'',
             sf_message = ''spine angle not adequate'', sf_fix = ''keep the forward tilt'' \<rparr>]
        else [])
     @ (case landmarks of
          [] \<Rightarrow> []
        | nose # _ \<Rightarrow>
           if lm_y nose < 0.25 then
             [\<lparr> sf_type = ''head_up'', sf_severity = ''critical'',
                sf_message = ''head up'', sf_fix = ''watch the ball until impact'' \<rparr>]
           else []))"

text \<open>\<open>GolfSwingAnalyzer.calculate_score\<close>.\<close>

definition severity_penalty :: "string \<Rightarrow> int" where
  "severity_penalty sev =
    (if sev = ''critical'' then 15 else if sev = ''high'' then 10
     else if sev = ''medium'' then 5 else if sev = ''low'' then 2 else 0)"

definition calculate_score :: "angles \<Rightarrow> swing_fault list \<Rightarrow> int" where
  "calculate_score angles faults =
    (let get = (\<lambda>key. dict_get angles key 0);
         b0 = 70;
         b1 = (if 85 \<le> get ''shoulder_rotation'' \<and> get ''shoulder_rotation'' \<le> 95 then b0 + 10 else b0);
         b2 = (if 40 \<le> get ''hip_rotation'' \<and> get ''hip_rotation'' \<le> 50 then b1 + 5 else b1);
         b3 = (if get ''x_factor'' \<ge> 40 then b2 + 10 else b2);
         b4 = (if 140 \<le> get ''knee_flex'' \<and> get ''knee_flex'' \<le> 160 then b3 + 5 else b3);
         base_score = foldl (\<lambda>b f. b - severity_penalty (sf_severity f)) b4 faults
     in max 0 (min 100 base_score))"

text \<open>
  \<open>GolfSwingAnalyzer.is_golf_posture\<close>. The highest index read is 26; IndexError is
  caught and gives False.
\<close>

definition is_golf_posture :: "landmark list \<Rightarrow> bool" where
  "is_golf_posture landmarks =
    (if length landmarks \<le> 26 then False
     else
       let left_shoulder = landmarks ! 11; right_shoulder = landmarks ! 12;
           left_hip = landmarks ! 23; right_hip = landmarks ! 24;
           left_wrist = landmarks ! 15; right_wrist = landmarks ! 16;
           left_elbow = landmarks ! 13; right_elbow = landmarks ! 14;
           nose = landmarks ! 0;
           left_knee = landmarks ! 25; right_knee = landmarks ! 26;
           shoulder_tilt = \<bar>lm_y left_shoulder - lm_y right_shoulder\<bar>;
           s1 = (if shoulder_tilt < 0.08 then 20 else if shoulder_tilt < 0.15 then 15
                 else if shoulder_tilt < 0.25 then 10 else 0);
           wrist_diff = \<bar>lm_y left_wrist - lm_y right_wrist\<bar>;
           s2 = (if wrist_diff < 0.2 then 15 else if wrist_diff < 0.4 then 10
                 else if wrist_diff < 0.6 then 5 else 0);
           elbow_shoulder_relation = (lm_y left_elbow + lm_y right_elbow) / 2
                                     - (lm_y left_shoulder + lm_y right_shoulder) / 2;
           s3 = (if 0.1 < elbow_shoulder_relation \<and> elbow_shoulder_relation < 0.4 then 15
                 else if 0.05 < elbow_shoulder_relation \<and> elbow_shoulder_relation < 0.5 then 10
                 else 0);
           shoulder_center_y = (lm_y left_shoulder + lm_y right_shoulder) / 2;
           hip_center_y = (lm_y left_hip + lm_y right_hip) / 2;
           forward_lean = hip_center_y - shoulder_center_y;
           s4 = (if 0.1 < forward_lean \<and> forward_lean < 0.4 then 20
                 else if 0.05 < forward_lean \<and> forward_lean < 0.5 then 15
                 else if forward_lean > 0 then 10 else 0);
           knee_hip_relation = (lm_y left_knee + lm_y right_knee) / 2 - hip_center_y;
           s5 = (if 0.15 < knee_hip_relation \<and> knee_hip_relation < 0.35 then 10
                 else if 0.1 < knee_hip_relation \<and> knee_hip_relation < 0.4 then 7 else 0);
           s6 = (if 0.15 < lm_y nose \<and> lm_y nose < 0.6 then 10
                 else if 0.1 < lm_y nose \<and> lm_y nose < 0.7 then 7 else 0);
           wrist_center_x = (lm_x left_wrist + lm_x right_wrist) / 2;
           body_center_x = (lm_x left_shoulder + lm_x right_shoulder) / 2;
           hand_body_distance = \<bar>wrist_center_x - body_center_x\<bar>;
           s7 = (if hand_body_distance < 0.3 then 10 else if hand_body_distance < 0.5 then 7
                 else if hand_body_distance < 0.7 then 3 else 0);
           stance_width = \<bar>lm_x left_knee - lm_x right_knee\<bar>;
           shoulder_width = \<bar>lm_x left_shoulder - lm_x right_shoulder\<bar>;
           stance_ratio = stance_width / max shoulder_width 0.1;
           bonus1 = (if 0.8 \<le> stance_ratio \<and> stance_ratio \<le> 1.5 then 5 else 0);
           weight_balance = \<bar>lm_x left_knee - lm_x right_knee\<bar> / 2;
           body_center = \<bar>(lm_x left_shoulder + lm_x right_shoulder) / 2\<bar>;
           bonus2 = (if \<bar>weight_balance - body_center\<bar> < 0.1 then 5 else 0);
           score = s1 + s2 + s3 + s4 + s5 + s6 + s7 + (bonus1 + bonus2);
           is_other_sport =
             (lm_y left_knee < hip_center_y - 0.15 \<or> lm_y right_knee < hip_center_y - 0.15)
             \<or> (wrist_center_x > body_center_x + 0.5 \<and> lm_y nose < 0.25)
             \<or> \<bar>lm_x left_shoulder - lm_x right_shoulder\<bar> > 0.35
             \<or> (lm_y nose < 0.15 \<and> hand_body_distance > 0.6)
             \<or> hip_center_y > 0.7
       in (score::int) \<ge> 75 \<and> \<not> is_other_sport)"

text \<open>
  The dictionaries \<open>analyze_image\<close> returns: the early error returns, the \<open>output\<close>
  dictionary, and the fallback dictionaries of the outer \<open>except\<close> clauses (whose
  contents are fixed by the exception).
\<close>

record golf_analysis =
  detected :: bool
  out_landmarks :: "landmark list"
  out_angles :: angles
  out_faults :: "swing_fault list"
  out_score :: int
  out_error :: "string option"

datatype golf_output =
    DecodeError py_error
  | InvalidImage
  | Output golf_analysis
  | Fallback py_error

text \<open>The mutable fields of a \<open>GolfSwingAnalyzer\<close>, as set by \<open>__init__\<close>.\<close>

record analyzer_state =
  last_result :: "golf_output option"
  last_image_hash :: "int option"

definition new_analyzer :: analyzer_state where
  "new_analyzer = \<lparr> last_result = None, last_image_hash = None \<rparr>"

text \<open>
  The inner \<open>try\<close> of \<open>analyze_image\<close>: removing the data URL prefix and the
  whitespace, base64 decoding and image decoding. \<open>Inl\<close> is an exception, which the
  inner \<open>except\<close> turns into the decode-error dictionary.
\<close>

definition decode_input :: "'img vision \<Rightarrow> string \<Rightarrow> py_error + 'img option" where
  "decode_input env base64_image =
    (case strip_data_url base64_image of
       Inl e \<Rightarrow> Inl e
     | Inr s \<Rightarrow>
        (case b64decode env (remove_char CHR '' '' (remove_char (CHR 0x0D) (remove_char (CHR 0x0A) s))) of
           Inl e \<Rightarrow> Inl e
         | Inr image_data \<Rightarrow>
            (case imdecode env image_data of
               Inl e \<Rightarrow> Inl e
             | Inr decoded \<Rightarrow> Inr decoded)))"

text \<open>
  \<open>GolfSwingAnalyzer.analyze_image\<close>, returning the result and the analyzer after the
  call. \<open>last_image_hash\<close> is assigned as soon as landmarks are found; \<open>last_result\<close>
  only when the pose is a golf posture.
\<close>

definition analyze_image ::
  "'img vision \<Rightarrow> analyzer_state \<Rightarrow> string \<Rightarrow> golf_output \<times> analyzer_state" where
  "analyze_image env self base64_image =
    (case decode_input env base64_image of
       Inl e \<Rightarrow> (DecodeError e, self)
     | Inr None \<Rightarrow> (InvalidImage, self)
     | Inr (Some img) \<Rightarrow>
        let h = image_hash env img in
        (case (if last_image_hash self = Some h then last_result self else None) of
           Some cached \<Rightarrow> (cached, self)
         | None \<Rightarrow>
            (case detect_pose env img of
               Inl e \<Rightarrow> (Fallback e, self)
             | Inr None \<Rightarrow>
                 (Output \<lparr> detected = False, out_landmarks = [], out_angles = Map.empty,
                            out_faults = [], out_score = 50, out_error = None \<rparr>, self)
             | Inr (Some landmarks) \<Rightarrow>
                 let self1 = self\<lparr> last_image_hash := Some h \<rparr> in
                 if is_golf_posture landmarks then
                   (case calculate_golf_angles landmarks of
                      Inl e \<Rightarrow> (Fallback e, self1)
                    | Inr angles \<Rightarrow>
                       let faults = detect_swing_faults angles landmarks;
                           output = Output \<lparr> detected = True, out_landmarks = landmarks,
                                             out_angles = angles, out_faults = faults,
                                             out_score = calculate_score angles faults,
                                             out_error = None \<rparr>
                       in (output, self1\<lparr> last_result := Some output, last_image_hash := Some h \<rparr>))
                 else
                   (Output \<lparr> detected = False, out_landmarks = [], out_angles = Map.empty,
                              out_faults = [], out_score = 0,
                              out_error = Some ''Not a golf posture'' \<rparr>, self1))))"

text \<open>
  A deterministic stand-in for the external calls: the decoded bytes are the character
  codes, an image is identified by its number of bytes, the hash is that number, and the
  detector finds the golf pose in the four-byte image and a person standing with all
  landmarks at the centre of the frame in every other image.
\<close>

definition standing_pose :: "landmark list" where
  "standing_pose = replicate 33 (landmark_at (50/100) (50/100))"

definition stub_vision :: "nat vision" where
  "stub_vision =
     \<lparr> b64decode = (\<lambda>s. Inr (map of_char s)),
       imdecode = (\<lambda>bytes. if bytes = [] then Inl (CollaboratorError ''cv2.error'')
                           else Inr (Some (length bytes))),
       image_hash = int,
       detect_pose = (\<lambda>img. Inr (Some (if img = 4 then golf_pose else standing_pose))) \<rparr>"

section \<open>enhanced\_golf\_analyzer.py (apps/api): the analysis pipeline and the program\<close>

text \<open>
  The external calls of the pipeline. Every OpenCV call may raise. One attempt of the
  detector at a threshold either fails to construct the \<open>Pose\<close> object (outside the
  \<open>try\<close> of \<open>multi_stage_detection\<close>), raises while processing (inside it), finds no
  pose, or returns the landmarks.
\<close>

datatype pose_outcome =
    CreateFails py_error
  | ProcessRaises py_error
  | NoLandmarks
  | Landmarks "landmark list"

record 'img enhanced_env =
  env_b64decode :: "string \<Rightarrow> py_error + nat list"
  env_imdecode :: "nat list \<Rightarrow> py_error + 'img option"
  env_size :: "'img \<Rightarrow> nat"
  env_shape :: "'img \<Rightarrow> nat \<times> nat"
  env_laplacian_var :: "'img \<Rightarrow> py_error + real"
  env_gray_mean :: "'img \<Rightarrow> py_error + real"
  env_gamma :: "'img \<Rightarrow> py_error + 'img"
  env_scale_abs :: "'img \<Rightarrow> py_error + 'img"
  env_clahe :: "'img \<Rightarrow> py_error + 'img"
  env_resize :: "'img \<Rightarrow> nat \<times> nat \<Rightarrow> py_error + 'img"
  env_pose :: "real \<Rightarrow> 'img \<Rightarrow> pose_outcome"

text \<open>\<open>assess_image_quality\<close> and \<open>optimize_lighting_conditions\<close> on an image.\<close>

definition assess_quality_of :: "'img enhanced_env \<Rightarrow> 'img \<Rightarrow> py_error + quality_info" where
  "assess_quality_of env img =
    (case env_laplacian_var env img of
       Inl e \<Rightarrow> Inl e
     | Inr laplacian_var \<Rightarrow>
        (case env_gray_mean env img of
           Inl e \<Rightarrow> Inl e
         | Inr mean_brightness \<Rightarrow>
            Inr (assess_image_quality (env_shape env img) laplacian_var mean_brightness)))"

definition optimize_lighting_conditions :: "'img enhanced_env \<Rightarrow> 'img \<Rightarrow> py_error + 'img" where
  "optimize_lighting_conditions env img =
    (case env_gray_mean env img of
       Inl e \<Rightarrow> Inl e
     | Inr mean_brightness \<Rightarrow>
        (case (if mean_brightness < 80 then env_gamma env img
               else if mean_brightness > 200 then env_scale_abs env img
               else Inr img) of
           Inl e \<Rightarrow> Inl e
         | Inr adjusted \<Rightarrow> env_clahe env adjusted))"

text \<open>
  \<open>multi_stage_detection\<close>: the loop over \<open>enumerate(self.confidence_thresholds)\<close> with
  the best result so far and its confidence (initially None and 0).
\<close>

definition confidence_thresholds :: "real list" where
  "confidence_thresholds = [0.1, 0.15, 0.2, 0.25, 0.3]"

fun stage_loop ::
  "'img enhanced_env \<Rightarrow> 'img \<Rightarrow> (feature_vector \<times> real \<times> nat) option \<Rightarrow> real
   \<Rightarrow> (nat \<times> real) list \<Rightarrow> py_error + (feature_vector \<times> real \<times> nat) option" where
  "stage_loop env img best_result best_confidence [] = Inr best_result"
| "stage_loop env img best_result best_confidence ((i, threshold) # rest) =
    (case env_pose env threshold img of
       CreateFails e \<Rightarrow> Inl e
     | ProcessRaises e \<Rightarrow> stage_loop env img best_result best_confidence rest
     | NoLandmarks \<Rightarrow> stage_loop env img best_result best_confidence rest
     | Landmarks landmarks \<Rightarrow>
        (case extract_golf_features landmarks of
           None \<Rightarrow> stage_loop env img best_result best_confidence rest
         | Some f \<Rightarrow>
            if confidence f > best_confidence
            then stage_loop env img (Some (f, threshold, i + 1)) (confidence f) rest
            else stage_loop env img best_result best_confidence rest))"

definition multi_stage_detection ::
  "'img enhanced_env \<Rightarrow> 'img \<Rightarrow> py_error + (feature_vector \<times> real \<times> nat) option" where
  "multi_stage_detection env img =
     stage_loop env img None 0 (enumerate 0 confidence_thresholds)"

text \<open>
  \<open>multi_scale_processing\<close>: the loop over the scales. \<open>int(h * scale)\<close> truncates;
  \<open>cv2.resize\<close> takes the size as (width, height).
\<close>

fun scale_loop :: "'img enhanced_env \<Rightarrow> 'img \<Rightarrow> real list \<Rightarrow> py_error + detection list" where
  "scale_loop env img [] = Inr []"
| "scale_loop env img (s # rest) =
    (let h = fst (env_shape env img); w = snd (env_shape env img)
     in case (if s \<noteq> 1 then env_resize env img (nat \<lfloor>real w * s\<rfloor>, nat \<lfloor>real h * s\<rfloor>)
              else Inr img) of
          Inl e \<Rightarrow> Inl e
        | Inr scaled_image \<Rightarrow>
           (case multi_stage_detection env scaled_image of
              Inl e \<Rightarrow> Inl e
            | Inr found \<Rightarrow>
               (case scale_loop env img rest of
                  Inl e \<Rightarrow> Inl e
                | Inr results \<Rightarrow>
                   (case found of
                      None \<Rightarrow> Inr results
                    | Some (f, threshold, i) \<Rightarrow>
                       Inr (\<lparr> features = f, threshold_used = threshold, stage = i,
                              scale = s, voting_info = None \<rparr> # results)))))"

definition multi_scale_processing :: "'img enhanced_env \<Rightarrow> 'img \<Rightarrow> py_error + detection list" where
  "multi_scale_processing env img = scale_loop env img [0.8, 1, 1.2]"

text \<open>
  The dictionaries \<open>analyze_enhanced\<close> returns. A failure carries \<open>success: False\<close>, an
  error text (one of five, here a constructor; the Korean texts embed the exception
  message where the constructor has an argument) and, for a failed detection, the
  quality record.
\<close>

datatype failure_reason =
    Base64DecodeFailed py_error
  | ImageDecodeFailed
  | DetectionFailed
  | VotingFailed
  | AnalysisSystemError py_error

fun pf_round1 :: "pyfloat \<Rightarrow> pyfloat" where
  "pf_round1 (Fin v) = Fin (round_ndigits v 1)"
| "pf_round1 NaN = NaN"

record success_result =
  sr_score :: int
  sr_shoulder_rotation :: real
  sr_hip_rotation :: real
  sr_x_factor :: real
  sr_spine_angle :: real
  sr_knee_flex :: pyfloat
  sr_confidence :: real
  sr_quality_info :: quality_info
  sr_scales_tested :: nat
  sr_voting_results :: voting_info
  sr_best_scale :: real
  sr_best_threshold :: real
  sr_processing_stage :: nat

datatype enhanced_result =
    Failed failure_reason "quality_info option"
  | Succeeded success_result

fun success :: "enhanced_result \<Rightarrow> bool" where
  "success (Failed reason q) = False"
| "success (Succeeded r) = True"

text \<open>The padding step: \<open>'=' * (4 - len % 4)\<close> is appended when the length is no multiple of 4.\<close>

definition pad_base64 :: "string \<Rightarrow> string" where
  "pad_base64 s =
    (let missing_padding = length s mod 4
     in if missing_padding \<noteq> 0 then s @ replicate (4 - missing_padding) CHR ''='' else s)"

text \<open>
  The body of the \<open>try\<close> of \<open>analyze_enhanced\<close>: \<open>Inl\<close> is an exception that reaches
  the \<open>except Exception\<close> clause, \<open>Inr\<close> a returned dictionary. With a total weight of
  zero the voter returns an entry without \<open>voting_info\<close>, and reading it raises KeyError.
\<close>

definition analyze_enhanced_body :: "'img enhanced_env \<Rightarrow> string \<Rightarrow> py_error + enhanced_result" where
  "analyze_enhanced_body env base64_image =
    (case strip_data_url base64_image of
       Inl e \<Rightarrow> Inl e
     | Inr s \<Rightarrow>
    (case env_b64decode env
            (pad_base64 (remove_char (CHR 0x09) (remove_char CHR '' ''
               (remove_char (CHR 0x0D) (remove_char (CHR 0x0A) s))))) of
       Inl e \<Rightarrow> Inr (Failed (Base64DecodeFailed e) None)
     | Inr image_data \<Rightarrow>
    (case env_imdecode env image_data of
       Inl e \<Rightarrow> Inl e
     | Inr None \<Rightarrow> Inr (Failed ImageDecodeFailed None)
     | Inr (Some img) \<Rightarrow>
        if env_size env img = 0 then Inr (Failed ImageDecodeFailed None)
        else
    (case assess_quality_of env img of
       Inl e \<Rightarrow> Inl e
     | Inr quality \<Rightarrow>
    (case optimize_lighting_conditions env img of
       Inl e \<Rightarrow> Inl e
     | Inr optimized_image \<Rightarrow>
    (case multi_scale_processing env optimized_image of
       Inl e \<Rightarrow> Inl e
     | Inr multi_scale_results \<Rightarrow>
        if multi_scale_results = [] then Inr (Failed DetectionFailed (Some quality))
        else
    (case confidence_weighted_voting multi_scale_results of
       None \<Rightarrow> Inr (Failed VotingFailed None)
     | Some final_result \<Rightarrow>
        let f = features final_result;
            enhanced_score = calculate_enhanced_score (Some f) quality
        in (case voting_info final_result of
              None \<Rightarrow> Inl KeyError
            | Some vi \<Rightarrow>
               Inr (Succeeded
                 \<lparr> sr_score = enhanced_score,
                   sr_shoulder_rotation = round_ndigits (shoulder_rotation f) 1,
                   sr_hip_rotation = round_ndigits (hip_rotation f) 1,
                   sr_x_factor = round_ndigits (x_factor f) 1,
                   sr_spine_angle = round_ndigits (spine_angle f) 1,
                   sr_knee_flex = pf_round1 (knee_flex f),
                   sr_confidence = round_ndigits (confidence f * 100) 1,
                   sr_quality_info = quality,
                   sr_scales_tested = length multi_scale_results,
                   sr_voting_results = vi,
                   sr_best_scale = scale final_result,
                   sr_best_threshold = threshold_used final_result,
                   sr_processing_stage = stage final_result \<rparr>)))))))))"

text \<open>\<open>analyze_enhanced\<close>: the \<open>except Exception\<close> clause turns an exception into a failure.\<close>

definition analyze_enhanced :: "'img enhanced_env \<Rightarrow> string \<Rightarrow> enhanced_result" where
  "analyze_enhanced env base64_image =
    (case analyze_enhanced_body env base64_image of
       Inl e \<Rightarrow> Failed (AnalysisSystemError e) None
     | Inr result \<Rightarrow> result)"

text \<open>
  The main block. The input text comes from the file named on the command line (opening
  or reading it can raise; nothing catches that) or from standard input; \<open>strip()\<close>
  removes leading and trailing whitespace. \<open>Inl\<close> is an uncaught exception: the process
  ends with a traceback and prints no JSON. \<open>Inr\<close> is the dictionary printed as JSON.

  A character of the text is a code point below 256. Of these, \<open>str.strip\<close> removes
  U+0009 to U+000D, U+001C to U+0020, U+0085 and U+00A0. The whitespace characters of
  Python with larger code points have no counterpart in the character type.
\<close>

datatype program_input =
    FromFile "py_error + string"
  | FromStdin string

definition is_space :: "char \<Rightarrow> bool" where
  "is_space c = (c \<in> set [CHR 0x09, CHR 0x0A, CHR 0x0B, CHR 0x0C, CHR 0x0D,
                            CHR 0x1C, CHR 0x1D, CHR 0x1E, CHR 0x1F, CHR '' '',
                            CHR 0x85, CHR 0xA0])"

definition strip :: "string \<Rightarrow> string" where
  "strip s = rev (dropWhile is_space (rev (dropWhile is_space s)))"

definition main_program :: "'img enhanced_env \<Rightarrow> program_input \<Rightarrow> py_error + enhanced_result" where
  "main_program env input =
    (case input of
       FromFile (Inl e) \<Rightarrow> Inl e
     | FromFile (Inr text) \<Rightarrow> Inr (analyze_enhanced env (strip text))
     | FromStdin text \<Rightarrow> Inr (analyze_enhanced env (strip text)))"

text \<open>
  A deterministic stand-in for the external calls in which no attempt finds a pose: a
  640 by 480 image of mid-gray brightness, and a detector that returns nothing.
\<close>

definition blind_env :: "nat enhanced_env" where
  "blind_env =
     \<lparr> env_b64decode = (\<lambda>s. Inr (map of_char s)),
       env_imdecode = (\<lambda>bytes. Inr (if bytes = [] then None else Some (length bytes))),
       env_size = (\<lambda>img. 640 * 480 * 3),
       env_shape = (\<lambda>img. (480, 640)),
       env_laplacian_var = (\<lambda>img. Inr 100),
       env_gray_mean = (\<lambda>img. Inr 128),
       env_gamma = Inr,
       env_scale_abs = Inr,
       env_clahe = Inr,
       env_resize = (\<lambda>img size. Inr img),
       env_pose = (\<lambda>threshold img. NoLandmarks) \<rparr>"

section \<open>pro\_golf\_analyzer.py: the single-frame score\<close>

text \<open>
  The entries of the feature dictionary that \<open>calculate_pro_score\<close> and
  \<open>determine_swing_phase\<close> read. The knee angles of this analyzer are computed with
  \<open>1e-6\<close> added to the denominator and are finite.
\<close>

record pro_features =
  pro_x_factor :: real
  pro_spine_angle :: real
  pro_knee_flex :: real
  pro_weight_distribution :: real
  pro_head_stability :: bool
  pro_hands_together :: bool
  pro_hand_height :: real
  pro_confidence :: real

definition determine_swing_phase :: "pro_features \<Rightarrow> string" where
  "determine_swing_phase f =
    (if pro_hands_together f \<and> pro_hand_height f > 0.6 then
       (if pro_x_factor f > 30 then ''backswing'' else ''address'')
     else if pro_x_factor f < 20 then ''impact''
     else ''downswing'')"

text \<open>
  The feedback and improvement texts, with the number the source formats into them
  (\<open>:.0f\<close>).
\<close>

datatype pro_note =
    NoPoseDetected
  | PerfectXFactor int
  | GoodXFactor int
  | XFactorNeedsWork int
  | IncreaseSeparation
  | GoodSpineAngle int
  | AdjustSpineAngle int
  | GoodKneeFlex
  | BendKneesMore
  | BendKneesLess
  | BalancedWeight
  | DistributeWeight
  | HeadStable
  | KeepHeadStill
  | GradeProLevel
  | GradeVeryGood
  | GradeGood
  | GradeBasicsGood
  | GradeNeedsBasics
  | KeepPosture
  | ConsistencyMatters

text \<open>
  The six evaluation blocks of \<open>calculate_pro_score\<close>: each gives the change of the
  score, the feedback it appends and the improvements it appends.
\<close>

definition x_factor_block :: "pro_features \<Rightarrow> int \<times> pro_note list \<times> pro_note list" where
  "x_factor_block f =
    (let xf = pro_x_factor f; ideal_x = 45; x_diff = \<bar>xf - ideal_x\<bar>
     in if x_diff \<le> 5 then (10, [PerfectXFactor (py_round xf)], [])
        else if x_diff \<le> 10 then (5, [GoodXFactor (py_round xf)], [])
        else if x_diff \<le> 20 then (- 5, [XFactorNeedsWork (py_round xf)], [])
        else (- 10, [], [IncreaseSeparation]))"

definition spine_block :: "pro_features \<Rightarrow> int \<times> pro_note list \<times> pro_note list" where
  "spine_block f =
    (let spine = pro_spine_angle f; ideal_spine = 25; spine_diff = \<bar>spine - ideal_spine\<bar>
     in if spine_diff \<le> 5 then (5, [GoodSpineAngle (py_round spine)], [])
        else if spine_diff \<le> 15 then (- 3, [], [])
        else (- 7, [], [AdjustSpineAngle (py_round spine)]))"

definition knee_block :: "pro_features \<Rightarrow> int \<times> pro_note list \<times> pro_note list" where
  "knee_block f =
    (let knee = pro_knee_flex f
     in if 20 \<le> knee \<and> knee \<le> 35 then (3, [GoodKneeFlex], [])
        else if knee < 15 then (- 5, [], [BendKneesMore])
        else if knee > 40 then (- 5, [], [BendKneesLess])
        else (0, [], []))"

definition weight_block :: "pro_features \<Rightarrow> int \<times> pro_note list \<times> pro_note list" where
  "weight_block f =
    (let weight = pro_weight_distribution f
     in if 0.9 \<le> weight \<and> weight \<le> 1.1 then (3, [BalancedWeight], [])
        else (- 3, [], [DistributeWeight]))"

definition head_block :: "pro_features \<Rightarrow> int \<times> pro_note list \<times> pro_note list" where
  "head_block f =
    (if pro_head_stability f then (2, [HeadStable], []) else (- 5, [], [KeepHeadStill]))"

definition confidence_block :: "pro_features \<Rightarrow> int \<times> pro_note list \<times> pro_note list" where
  "confidence_block f =
    (if pro_confidence f > 0.9 then (5, [], [])
     else if pro_confidence f > 0.8 then (3, [], [])
     else (0, [], []))"

text \<open>
  \<open>ProGolfAnalyzer.calculate_pro_score\<close>: base score 85, the six blocks in order, the
  clamp to [70, 95], the grade inserted at the head of the feedback, and the two default
  improvements when none was appended. The swing phase is determined and not used.
\<close>

definition calculate_pro_score ::
  "pro_features option \<Rightarrow> int \<times> pro_note list \<times> pro_note list" where
  "calculate_pro_score features_opt =
    (case features_opt of
       None \<Rightarrow> (60, [NoPoseDetected], [])
     | Some f \<Rightarrow>
        let phase = determine_swing_phase f;
            blocks = [x_factor_block f, spine_block f, knee_block f, weight_block f,
                      head_block f, confidence_block f];
            raw = foldl (\<lambda>score block. score + fst block) 85 blocks;
            feedback = concat (map (\<lambda>block. fst (snd block)) blocks);
            improvements = concat (map (\<lambda>block. snd (snd block)) blocks);
            score = max 70 (min 95 raw);
            grade = (if score \<ge> 90 then GradeProLevel
                     else if score \<ge> 85 then GradeVeryGood
                     else if score \<ge> 80 then GradeGood
                     else if score \<ge> 75 then GradeBasicsGood
                     else GradeNeedsBasics)
        in (score, grade # feedback,
            if improvements = [] then [KeepPosture, ConsistencyMatters] else improvements))"

section \<open>Theorems\<close>

subsection \<open>Swing phase classifier\<close>

lemma phases_at_rotation80_value:
  "phases_at_rotation80 =
     map Inr [''address'', ''top'', ''top'', ''top'', ''top'', ''transition'', ''impact'',
              ''follow_through'', ''finish'', ''finish'', ''finish'']"
  by (simp add: phases_at_rotation80_def detect_swing_phase_ml_def rotation80_def dict_get_def)

text \<open>
  Claim C6, as stated: with progress \<open>0.0, 0.1, ..., 1.0\<close> and shoulder rotation 80 the
  classifier yields address, takeaway, top, top, top, top, downswing, impact,
  follow\_through, finish, finish. The source does not: at progress 0.1 the rotation 80
  fails \<open>rotation < 30\<close> and the frame is classified top; 0.5 is transition, 0.6 is
  impact, 0.7 is follow\_through and 0.8 is already finish.
\<close>

theorem C6_claimed_sequence_refuted:
  "phases_at_rotation80 \<noteq>
     map Inr [''address'', ''takeaway'', ''top'', ''top'', ''top'', ''top'', ''downswing'',
              ''impact'', ''follow_through'', ''finish'', ''finish'']"
  by (simp add: phases_at_rotation80_value)

text \<open>
  Claim C6, amended: the classifier is a function of progress and shoulder rotation only
  (it is the transition table of section 4.6 applied to
  \<open>frame_num / total_frames\<close> and the frame's shoulder rotation, and raises
  ZeroDivisionError when \<open>total_frames\<close> is 0), and on progress \<open>0.0, 0.1, ..., 1.0\<close>
  with rotation 80 it yields address, top, top, top, top, transition, impact,
  follow\_through, finish, finish, finish.
\<close>

theorem C6_phase_classifier:
  "detect_swing_phase_ml landmarks angles frame_num total_frames =
     (if total_frames = 0 then Inl ZeroDivisionError
      else Inr (phase_table (real_of_int frame_num / real_of_int total_frames)
                            (dict_get angles ''shoulder_rotation'' 0)))
   \<and> phases_at_rotation80 =
     map Inr [''address'', ''top'', ''top'', ''top'', ''top'', ''transition'', ''impact'',
              ''follow_through'', ''finish'', ''finish'', ''finish'']"
  unfolding phases_at_rotation80_value
  by (simp add: detect_swing_phase_ml_def phase_table_def Let_def)

subsection \<open>Quality assessment\<close>

text \<open>
  Claim C7, as stated: the resolution score and the sharpness score never exceed 50.
  A 1280 by 960 frame has four times the baseline pixel count and scores 100.
\<close>

theorem C7_cap_50_refuted:
  "\<not> (resolution_score 960 1280 \<le> 50)"
  by (simp add: resolution_score_def)

text \<open>
  Claim C7, amended: for every frame the resolution score and the sharpness score are
  each capped at 100; 50 is the score of the 640 by 480 baseline and of a Laplacian
  variance of 100.
\<close>

theorem C7_scores_capped_at_100:
  "resolution_score h w \<le> 100 \<and> sharpness_score laplacian_var \<le> 100
   \<and> resolution_score 480 640 = 50 \<and> sharpness_score 100 = 50"
  by (simp add: resolution_score_def sharpness_score_def)

subsection \<open>Single-frame score\<close>

lemma clamp_78_96: "(78::int) \<le> max 78 (min 96 b) \<and> max 78 (min 96 b) \<le> 96"
  by simp

text \<open>
  Claim C3, as stated: \<open>calculate_enhanced_score\<close> is in [78, 96] regardless of the
  features. When the features are absent the guard at the head of the function returns
  65.
\<close>

theorem C3_absent_features_refuted:
  "\<not> (78 \<le> calculate_enhanced_score None
        \<lparr> total_score = 80, resolution = (640, 480), sharpness = 100, brightness = 128,
          quality_level = ''high'' \<rparr>)"
  by (simp add: calculate_enhanced_score_def)

lemma clamp_70_95: "(70::int) \<le> max 70 (min 95 b) \<and> max 70 (min 95 b) \<le> 95"
  by simp

text \<open>
  Claim C3, amended: for every feature vector that is present, with arbitrary values
  (\<open>nan\<close> knee flex included), and every quality record,
  \<open>calculate_enhanced_score\<close> is in [78, 96]; with absent features it returns the fixed
  fallback 65. Likewise \<open>calculate_pro_score\<close> is in [70, 95] for every feature
  dictionary that is present and 60 when it is absent.
\<close>

theorem C3_score_bounds:
  "78 \<le> calculate_enhanced_score (Some f) quality
   \<and> calculate_enhanced_score (Some f) quality \<le> 96
   \<and> calculate_enhanced_score None quality = 65
   \<and> 70 \<le> fst (calculate_pro_score (Some g))
   \<and> fst (calculate_pro_score (Some g)) \<le> 95
   \<and> fst (calculate_pro_score None) = 60"
proof -
  have "78 \<le> calculate_enhanced_score (Some f) quality
        \<and> calculate_enhanced_score (Some f) quality \<le> 96"
    unfolding calculate_enhanced_score_def Let_def option.case by (rule clamp_78_96)
  moreover have "calculate_enhanced_score None quality = 65"
    by (simp add: calculate_enhanced_score_def)
  moreover have "70 \<le> fst (calculate_pro_score (Some g))
        \<and> fst (calculate_pro_score (Some g)) \<le> 95"
    unfolding calculate_pro_score_def Let_def option.case fst_conv by (rule clamp_70_95)
  moreover have "fst (calculate_pro_score None) = 60"
    by (simp add: calculate_pro_score_def)
  ultimately show ?thesis by simp
qed

subsection \<open>Three-point angle\<close>

lemma degrees_arccos_range:
  assumes "- 1 \<le> c" and "c \<le> 1"
  shows "0 \<le> degrees (arccos c) \<and> degrees (arccos c) \<le> 180"
proof -
  have "0 \<le> arccos c" and "arccos c \<le> pi"
    using assms by (simp_all add: arccos_lbound arccos_ubound)
  then show ?thesis
    by (simp add: degrees_def pos_divide_le_eq)
qed

lemma clip_unit: "- 1 \<le> clip v (- 1) 1 \<and> clip v (- 1) 1 \<le> 1"
  by (simp add: clip_def)

lemma calculate_angle_3points_range:
  "calculate_angle_3points p1 p2 p3 = Fin a \<Longrightarrow> 0 \<le> a \<and> a \<le> 180"
  unfolding calculate_angle_3points_def angle_3points_body_def Let_def
  using degrees_arccos_range [OF conjunct1 [OF clip_unit] conjunct2 [OF clip_unit]]
  by (auto split: if_splits)

text \<open>
  Claim C10: the three-point angle is always a degree value in [0, 180], and a
  degenerate input such as coincident points yields the default 90. The source returns
  \<open>nan\<close> there: with \<open>point1 = point2\<close> the first vector is zero, the quotient is
  \<open>0/0\<close>, numpy returns \<open>nan\<close> without raising, and the \<open>except\<close> branch that
  returns 90 is not taken.
\<close>

theorem C10_coincident_points_nan:
  "calculate_angle_3points
     \<lparr> lm_x = 1/2, lm_y = 1/2, lm_z = 0, lm_visibility = Some 1 \<rparr>
     \<lparr> lm_x = 1/2, lm_y = 1/2, lm_z = 0, lm_visibility = Some 1 \<rparr>
     \<lparr> lm_x = 1/2, lm_y = 7/10, lm_z = 0, lm_visibility = Some 1 \<rparr> = NaN"
  by (simp add: calculate_angle_3points_def angle_3points_body_def)

subsection \<open>Sums and maxima over permuted lists\<close>

lemma sum_list_map_mset:
  fixes f :: "'a \<Rightarrow> real"
  assumes "mset xs = mset ys"
  shows "sum_list (map f xs) = sum_list (map f ys)"
proof -
  have "mset (map f xs) = mset (map f ys)"
    using assms by simp
  then have "sum_mset (mset (map f xs)) = sum_mset (mset (map f ys))"
    by simp
  then show ?thesis
    by (simp only: sum_mset_sum_list)
qed

lemma foldl_pf_add_nan: "foldl pf_add NaN xs = NaN"
  by (induction xs) simp_all

lemma foldl_pf_add:
  "foldl pf_add (Fin a) xs = (if NaN \<in> set xs then NaN else Fin (a + sum_list (map the_fin xs)))"
proof (induction xs arbitrary: a)
  case Nil show ?case by simp
next
  case (Cons x xs)
  show ?case
  proof (cases x)
    case NaN then show ?thesis by (simp add: foldl_pf_add_nan)
  next
    case (Fin b) then show ?thesis using Cons.IH [of "a + b"] by (simp add: add.assoc)
  qed
qed

lemma pf_sum_mset:
  assumes "mset xs = mset ys"
  shows "pf_sum xs = pf_sum ys"
proof -
  have "set xs = set ys" using assms by (rule mset_eq_setD)
  moreover have "sum_list (map the_fin xs) = sum_list (map the_fin ys)"
    using assms by (rule sum_list_map_mset)
  ultimately show ?thesis by (simp add: pf_sum_def foldl_pf_add)
qed

lemma key_foldl_max:
  fixes key :: "'a \<Rightarrow> real"
  shows "key (foldl (\<lambda>best r. if key r > key best then r else best) b rs)
         = fold max (map key rs) (key b)"
proof (induction rs arbitrary: b)
  case Nil show ?case by simp
next
  case (Cons r rs)
  have "key (if key b < key r then r else b) = max (key r) (key b)"
    by (simp add: max_def)
  then show ?case using Cons.IH [of "if key b < key r then r else b"] by simp
qed

lemma key_max_by:
  fixes key :: "'a \<Rightarrow> real"
  shows "key (max_by key b rs) = Max (set (map key (b # rs)))"
  unfolding max_by_def key_foldl_max
  by (simp only: list.map Max.set_eq_fold)

subsection \<open>Feature extraction and voting\<close>

lemma round_9_5: "round_ndigits (9/5) 3 = 9/5"
  by (simp add: round_ndigits_def py_round_def Let_def)

lemma voting_ab:
  "confidence_weighted_voting [attempt_a, attempt_b] =
     Some \<lparr> features = \<lparr> shoulder_rotation = 5, hip_rotation = 5, x_factor = 10,
                    spine_angle = 26, knee_flex = Fin (55/2), confidence = 9/10 \<rparr>,
       threshold_used = 1/10, stage = 1, scale = 8/10,
       voting_info = Some \<lparr> num_results = 2, total_weight = 18/10,
                              scales_used = [8/10, 12/10], stages_used = [1, 2] \<rparr> \<rparr>"
  by (simp add: confidence_weighted_voting_def attempt_a_def attempt_b_def max_by_def
        weighted_angle_def weighted_knee_flex_def pf_sum_def round_9_5 Let_def)

lemma voting_ba:
  "confidence_weighted_voting [attempt_b, attempt_a] =
     Some \<lparr> features = \<lparr> shoulder_rotation = 5, hip_rotation = 5, x_factor = 10,
                    spine_angle = 26, knee_flex = Fin (55/2), confidence = 9/10 \<rparr>,
       threshold_used = 15/100, stage = 2, scale = 12/10,
       voting_info = Some \<lparr> num_results = 2, total_weight = 18/10,
                              scales_used = [12/10, 8/10], stages_used = [2, 1] \<rparr> \<rparr>"
  by (simp add: confidence_weighted_voting_def attempt_a_def attempt_b_def max_by_def
        weighted_angle_def weighted_knee_flex_def pf_sum_def round_9_5 Let_def)

lemma golf_pose_length: "length golf_pose = 33"
  by (simp add: golf_pose_def)

lemma extract_golf_pose: "extract_golf_features golf_pose \<noteq> None"
  by (simp add: extract_golf_features_def golf_pose_length Let_def)

lemma extract_x_factor:
  "extract_golf_features lms = Some f \<Longrightarrow> x_factor f = \<bar>shoulder_rotation f - hip_rotation f\<bar>"
  unfolding extract_golf_features_def Let_def
  by (cases "length lms \<le> 28") auto

lemma weighted_abs:
  fixes s h xf c :: "'a \<Rightarrow> real"
  assumes "\<forall>r\<in>set rs. xf r = \<bar>s r - h r\<bar> \<and> 0 \<le> c r"
  shows "\<bar>sum_list (map (\<lambda>r. s r * c r) rs) - sum_list (map (\<lambda>r. h r * c r) rs)\<bar>
         \<le> sum_list (map (\<lambda>r. xf r * c r) rs)"
  using assms
proof (induction rs)
  case Nil show ?case by simp
next
  case (Cons r rs)
  have ih: "\<bar>sum_list (map (\<lambda>r. s r * c r) rs) - sum_list (map (\<lambda>r. h r * c r) rs)\<bar>
         \<le> sum_list (map (\<lambda>r. xf r * c r) rs)"
    using Cons by simp
  have "s r * c r - h r * c r = (s r - h r) * c r" by (simp add: algebra_simps)
  moreover have "\<bar>(s r - h r) * c r\<bar> = xf r * c r"
    using Cons.prems by (simp add: abs_mult)
  ultimately have "\<bar>s r * c r - h r * c r\<bar> = xf r * c r" by simp
  with ih show ?case by simp
qed

lemma voting_fused:
  assumes "confidence_weighted_voting results = Some v"
    and "sum_list (map (\<lambda>r. confidence (features r)) results) \<noteq> 0"
  shows "shoulder_rotation (features v) =
           weighted_angle shoulder_rotation results (sum_list (map (\<lambda>r. confidence (features r)) results))"
    and "hip_rotation (features v) =
           weighted_angle hip_rotation results (sum_list (map (\<lambda>r. confidence (features r)) results))"
    and "x_factor (features v) =
           weighted_angle x_factor results (sum_list (map (\<lambda>r. confidence (features r)) results))"
  using assms
  by (auto simp: confidence_weighted_voting_def Let_def split: list.splits)

lemma voting_zero_weight:
  assumes "confidence_weighted_voting results = Some v"
    and "sum_list (map (\<lambda>r. confidence (features r)) results) = 0"
  shows "v \<in> set results"
  using assms
  by (auto simp: confidence_weighted_voting_def Let_def split: list.splits)

lemma voting_x_factor_ge:
  assumes inv: "\<forall>r\<in>set results.
       x_factor (features r) = \<bar>shoulder_rotation (features r) - hip_rotation (features r)\<bar>
       \<and> 0 \<le> confidence (features r)"
    and v: "confidence_weighted_voting results = Some v"
  shows "\<bar>shoulder_rotation (features v) - hip_rotation (features v)\<bar> \<le> x_factor (features v)"
proof (cases "sum_list (map (\<lambda>r. confidence (features r)) results) = 0")
  case True
  then have "v \<in> set results" using v by (simp add: voting_zero_weight)
  then show ?thesis using inv by simp
next
  case False
  define w where "w = sum_list (map (\<lambda>r. confidence (features r)) results)"
  have "0 \<le> w"
    unfolding w_def using inv by (intro sum_list_nonneg) auto
  then have wpos: "0 < w" using False w_def by simp
  have abs_le: "\<bar>sum_list (map (\<lambda>r. shoulder_rotation (features r) * confidence (features r)) results)
          - sum_list (map (\<lambda>r. hip_rotation (features r) * confidence (features r)) results)\<bar>
        \<le> sum_list (map (\<lambda>r. x_factor (features r) * confidence (features r)) results)"
    using inv by (intro weighted_abs) simp
  have "\<bar>weighted_angle shoulder_rotation results w - weighted_angle hip_rotation results w\<bar>
        = \<bar>sum_list (map (\<lambda>r. shoulder_rotation (features r) * confidence (features r)) results)
          - sum_list (map (\<lambda>r. hip_rotation (features r) * confidence (features r)) results)\<bar> / w"
    using wpos by (simp add: weighted_angle_def diff_divide_distrib [symmetric])
  also have "\<dots> \<le> weighted_angle x_factor results w"
    unfolding weighted_angle_def using abs_le wpos by (simp add: divide_right_mono)
  finally show ?thesis
    using voting_fused [OF v False] by (simp add: w_def)
qed

lemma voting_nonzero:
  assumes "sum_list (map (\<lambda>r. confidence (features r)) (a # as)) \<noteq> 0"
  shows "confidence_weighted_voting (a # as) =
      Some ((max_by (\<lambda>r. confidence (features r)) a as)
        \<lparr> features := (features (max_by (\<lambda>r. confidence (features r)) a as))
            \<lparr> shoulder_rotation := weighted_angle shoulder_rotation (a # as)
                 (sum_list (map (\<lambda>r. confidence (features r)) (a # as))),
              hip_rotation := weighted_angle hip_rotation (a # as)
                 (sum_list (map (\<lambda>r. confidence (features r)) (a # as))),
              x_factor := weighted_angle x_factor (a # as)
                 (sum_list (map (\<lambda>r. confidence (features r)) (a # as))),
              spine_angle := weighted_angle spine_angle (a # as)
                 (sum_list (map (\<lambda>r. confidence (features r)) (a # as))),
              knee_flex := weighted_knee_flex (a # as)
                 (sum_list (map (\<lambda>r. confidence (features r)) (a # as))) \<rparr>,
          voting_info := Some \<lparr> num_results = length (a # as),
                                total_weight = round_ndigits
                                  (sum_list (map (\<lambda>r. confidence (features r)) (a # as))) 3,
                                scales_used = map scale (a # as),
                                stages_used = map stage (a # as) \<rparr> \<rparr>)"
  unfolding confidence_weighted_voting_def list.case Let_def
  using assms by (simp only: if_False)

text \<open>
  Claim C1, as stated: every feature vector, the fused one of the voter included, has
  \<open>x_factor = \<bar>shoulder_rotation - hip_rotation\<bar>\<close>. The voter averages the three
  angles independently: two attempts with rotations (10, 0) and (0, 10), both with
  x-factor 10, fuse to rotations (5, 5) and x-factor 10.
\<close>

theorem C1_fused_x_factor_refuted:
  "x_factor (features (the (confidence_weighted_voting [attempt_a, attempt_b]))) \<noteq>
     \<bar>shoulder_rotation (features (the (confidence_weighted_voting [attempt_a, attempt_b])))
      - hip_rotation (features (the (confidence_weighted_voting [attempt_a, attempt_b])))\<bar>"
  by (simp add: voting_ab)

text \<open>
  Claim C1, amended: every feature vector returned by \<open>extract_golf_features\<close> has
  \<open>x_factor = \<bar>shoulder_rotation - hip_rotation\<bar>\<close> exactly. The fused vector of
  \<open>confidence_weighted_voting\<close> carries the confidence-weighted mean of the attempts'
  x-factors (when the confidences do not sum to zero); for attempts that satisfy the
  equation and have non-negative confidence this mean is, in exact arithmetic, at least
  \<open>\<bar>shoulder_rotation - hip_rotation\<bar>\<close> of the fused vector, and it need not be equal.
\<close>

theorem C1_x_factor:
  "(extract_golf_features lms = Some f \<longrightarrow>
      x_factor f = \<bar>shoulder_rotation f - hip_rotation f\<bar>)
   \<and> (confidence_weighted_voting results = Some v \<longrightarrow>
        sum_list (map (\<lambda>r. confidence (features r)) results) \<noteq> 0 \<longrightarrow>
        x_factor (features v) =
          sum_list (map (\<lambda>r. x_factor (features r) * confidence (features r)) results)
          / sum_list (map (\<lambda>r. confidence (features r)) results))
   \<and> (confidence_weighted_voting results = Some v \<longrightarrow>
        (\<forall>r\<in>set results.
           x_factor (features r) = \<bar>shoulder_rotation (features r) - hip_rotation (features r)\<bar>
           \<and> 0 \<le> confidence (features r)) \<longrightarrow>
        \<bar>shoulder_rotation (features v) - hip_rotation (features v)\<bar> \<le> x_factor (features v))"
proof (intro conjI impI)
  assume "extract_golf_features lms = Some f"
  then show "x_factor f = \<bar>shoulder_rotation f - hip_rotation f\<bar>"
    by (rule extract_x_factor)
next
  assume "confidence_weighted_voting results = Some v"
    and "sum_list (map (\<lambda>r. confidence (features r)) results) \<noteq> 0"
  then show "x_factor (features v) =
          sum_list (map (\<lambda>r. x_factor (features r) * confidence (features r)) results)
          / sum_list (map (\<lambda>r. confidence (features r)) results)"
    using voting_fused(3) by (simp add: weighted_angle_def)
next
  assume "confidence_weighted_voting results = Some v"
    and "\<forall>r\<in>set results.
           x_factor (features r) = \<bar>shoulder_rotation (features r) - hip_rotation (features r)\<bar>
           \<and> 0 \<le> confidence (features r)"
  then show "\<bar>shoulder_rotation (features v) - hip_rotation (features v)\<bar> \<le> x_factor (features v)"
    using voting_x_factor_ge by blast
qed

theorem C1_x_factor_witness:
  "extract_golf_features golf_pose \<noteq> None
   \<and> x_factor (the (extract_golf_features golf_pose)) =
       \<bar>shoulder_rotation (the (extract_golf_features golf_pose))
        - hip_rotation (the (extract_golf_features golf_pose))\<bar>
   \<and> confidence_weighted_voting [attempt_a, attempt_b] \<noteq> None
   \<and> confidence (features attempt_a) + confidence (features attempt_b) \<noteq> 0
   \<and> x_factor (features attempt_a) =
       \<bar>shoulder_rotation (features attempt_a) - hip_rotation (features attempt_a)\<bar>
   \<and> x_factor (features attempt_b) =
       \<bar>shoulder_rotation (features attempt_b) - hip_rotation (features attempt_b)\<bar>
   \<and> 0 \<le> confidence (features attempt_a) \<and> 0 \<le> confidence (features attempt_b)
   \<and> x_factor (features (the (confidence_weighted_voting [attempt_a, attempt_b]))) = 10
   \<and> \<bar>shoulder_rotation (features (the (confidence_weighted_voting [attempt_a, attempt_b])))
       - hip_rotation (features (the (confidence_weighted_voting [attempt_a, attempt_b])))\<bar>
       \<le> x_factor (features (the (confidence_weighted_voting [attempt_a, attempt_b])))"
proof -
  obtain f where f: "extract_golf_features golf_pose = Some f"
    using extract_golf_pose by blast
  note inst = C1_x_factor [of golf_pose f "[attempt_a, attempt_b]"
      "the (confidence_weighted_voting [attempt_a, attempt_b])"]
  have v: "confidence_weighted_voting [attempt_a, attempt_b]
           = Some (the (confidence_weighted_voting [attempt_a, attempt_b]))"
    by (simp add: voting_ab)
  have inv: "\<forall>r\<in>set [attempt_a, attempt_b].
           x_factor (features r) = \<bar>shoulder_rotation (features r) - hip_rotation (features r)\<bar>
           \<and> 0 \<le> confidence (features r)"
    by (simp add: attempt_a_def attempt_b_def)
  have w: "sum_list (map (\<lambda>r. confidence (features r)) [attempt_a, attempt_b]) \<noteq> 0"
    by (simp add: attempt_a_def attempt_b_def)
  have 1: "x_factor f = \<bar>shoulder_rotation f - hip_rotation f\<bar>"
    using inst f by blast
  have 2: "x_factor (features (the (confidence_weighted_voting [attempt_a, attempt_b]))) =
          sum_list (map (\<lambda>r. x_factor (features r) * confidence (features r)) [attempt_a, attempt_b])
          / sum_list (map (\<lambda>r. confidence (features r)) [attempt_a, attempt_b])"
    using inst v w by blast
  have 3: "\<bar>shoulder_rotation (features (the (confidence_weighted_voting [attempt_a, attempt_b])))
       - hip_rotation (features (the (confidence_weighted_voting [attempt_a, attempt_b])))\<bar>
       \<le> x_factor (features (the (confidence_weighted_voting [attempt_a, attempt_b])))"
    using inst v inv by blast
  have 4: "x_factor (features (the (confidence_weighted_voting [attempt_a, attempt_b]))) = 10"
    unfolding 2 by (simp add: attempt_a_def attempt_b_def)
  have 5: "confidence_weighted_voting [attempt_a, attempt_b] \<noteq> None"
    by (simp add: voting_ab)
  have 6: "confidence (features attempt_a) + confidence (features attempt_b) \<noteq> 0"
    using w by simp
  have 7: "extract_golf_features golf_pose \<noteq> None"
    by (rule extract_golf_pose)
  have 8: "the (extract_golf_features golf_pose) = f"
    using f by simp
  show ?thesis
    unfolding 8
    using 1 3 4 5 6 7 inv by simp
qed

text \<open>
  Claim C2, as stated: every permutation of the attempts gives an identical consensus,
  base identity and metadata included. Two attempts with the same confidence are a tie
  that \<open>max\<close> resolves by list position, and \<open>scales_used\<close> and \<open>stages_used\<close> are
  listed in input order: swapping the two attempts changes the selected scale, stage
  and threshold and the order of the metadata lists.
\<close>

theorem C2_order_dependence:
  "mset [attempt_a, attempt_b] = mset [attempt_b, attempt_a]
   \<and> confidence_weighted_voting [attempt_a, attempt_b]
       \<noteq> confidence_weighted_voting [attempt_b, attempt_a]"
  by (simp add: voting_ab voting_ba)

text \<open>
  Claim C2, amended: for every non-empty list of attempts whose confidences do not sum
  to zero, and every permutation of it, \<open>confidence_weighted_voting\<close> returns a
  consensus with the same five fused angles, the same confidence (the maximal one), the
  same number of results and total weight, and the same scales and stages up to order.
  The selected base identity (scale, stage, threshold of the first attempt with maximal
  confidence) and the order of \<open>scales_used\<close> and \<open>stages_used\<close> follow the input
  order.
\<close>

theorem C2_voting_permutation:
  assumes perm: "mset xs = mset ys"
    and nonempty: "xs \<noteq> []"
    and weight: "sum_list (map (\<lambda>r. confidence (features r)) xs) \<noteq> 0"
  shows "\<exists>rx ry vx vy.
           confidence_weighted_voting xs = Some rx
         \<and> confidence_weighted_voting ys = Some ry
         \<and> shoulder_rotation (features rx) = shoulder_rotation (features ry)
         \<and> hip_rotation (features rx) = hip_rotation (features ry)
         \<and> x_factor (features rx) = x_factor (features ry)
         \<and> spine_angle (features rx) = spine_angle (features ry)
         \<and> knee_flex (features rx) = knee_flex (features ry)
         \<and> confidence (features rx) = confidence (features ry)
         \<and> voting_info rx = Some vx \<and> voting_info ry = Some vy
         \<and> num_results vx = num_results vy
         \<and> total_weight vx = total_weight vy
         \<and> mset (scales_used vx) = mset (scales_used vy)
         \<and> mset (stages_used vx) = mset (stages_used vy)"
proof -
  define conf :: "detection \<Rightarrow> real" where "conf = (\<lambda>r. confidence (features r))"
  define w where "w = sum_list (map conf xs)"
  obtain a as where xs: "xs = a # as"
    using nonempty by (cases xs) auto
  have "ys \<noteq> []" using perm nonempty by auto
  then obtain b bs where ys: "ys = b # bs"
    by (cases ys) auto
  have w_ys: "sum_list (map conf ys) = w"
    unfolding w_def using sum_list_map_mset [OF perm, of conf] by simp
  have w0: "w \<noteq> 0" using weight by (simp add: w_def conf_def)
  have angle: "weighted_angle key xs w = weighted_angle key ys w" for key
    unfolding weighted_angle_def
    using sum_list_map_mset [OF perm, of "\<lambda>r. key (features r) * confidence (features r)"]
    by simp
  have "mset (map (\<lambda>r. pf_scale (knee_flex (features r)) (confidence (features r))) xs)
        = mset (map (\<lambda>r. pf_scale (knee_flex (features r)) (confidence (features r))) ys)"
    using perm by simp
  then have "pf_sum (map (\<lambda>r. pf_scale (knee_flex (features r)) (confidence (features r))) xs)
        = pf_sum (map (\<lambda>r. pf_scale (knee_flex (features r)) (confidence (features r))) ys)"
    by (rule pf_sum_mset)
  then have knee: "weighted_knee_flex xs w = weighted_knee_flex ys w"
    unfolding weighted_knee_flex_def by simp
  have "set xs = set ys"
    using perm by (rule mset_eq_setD)
  then have "set (map conf xs) = set (map conf ys)"
    by simp
  then have best: "conf (max_by conf a as) = conf (max_by conf b bs)"
    by (simp only: key_max_by xs ys)
  have len: "length xs = length ys"
    using perm by (rule mset_eq_length)
  have scales: "mset (map scale xs) = mset (map scale ys)"
    and stages: "mset (map stage xs) = mset (map stage ys)"
    using perm by simp_all
  define rx where "rx = (max_by conf a as)
        \<lparr> features := (features (max_by conf a as))
            \<lparr> shoulder_rotation := weighted_angle shoulder_rotation xs w,
              hip_rotation := weighted_angle hip_rotation xs w,
              x_factor := weighted_angle x_factor xs w,
              spine_angle := weighted_angle spine_angle xs w,
              knee_flex := weighted_knee_flex xs w \<rparr>,
          voting_info := Some \<lparr> num_results = length xs,
                                total_weight = round_ndigits w 3,
                                scales_used = map scale xs,
                                stages_used = map stage xs \<rparr> \<rparr>"
  define ry where "ry = (max_by conf b bs)
        \<lparr> features := (features (max_by conf b bs))
            \<lparr> shoulder_rotation := weighted_angle shoulder_rotation ys w,
              hip_rotation := weighted_angle hip_rotation ys w,
              x_factor := weighted_angle x_factor ys w,
              spine_angle := weighted_angle spine_angle ys w,
              knee_flex := weighted_knee_flex ys w \<rparr>,
          voting_info := Some \<lparr> num_results = length ys,
                                total_weight = round_ndigits w 3,
                                scales_used = map scale ys,
                                stages_used = map stage ys \<rparr> \<rparr>"
  have "sum_list (map (\<lambda>r. confidence (features r)) (a # as)) \<noteq> 0"
    using weight xs by simp
  from voting_nonzero [OF this]
  have vx: "confidence_weighted_voting xs = Some rx"
    unfolding rx_def w_def conf_def xs .
  have "sum_list (map (\<lambda>r. confidence (features r)) (b # bs)) \<noteq> 0"
    using w0 w_ys unfolding conf_def ys by simp
  from voting_nonzero [OF this]
  have vy: "confidence_weighted_voting ys = Some ry"
    unfolding ry_def w_ys [symmetric] conf_def ys .
  have f1: "shoulder_rotation (features rx) = shoulder_rotation (features ry)"
    and f2: "hip_rotation (features rx) = hip_rotation (features ry)"
    and f3: "x_factor (features rx) = x_factor (features ry)"
    and f4: "spine_angle (features rx) = spine_angle (features ry)"
    by (simp_all add: rx_def ry_def angle)
  have f5: "knee_flex (features rx) = knee_flex (features ry)"
    by (simp add: rx_def ry_def knee)
  have f6: "confidence (features rx) = confidence (features ry)"
    using best by (simp add: rx_def ry_def conf_def)
  have i1: "voting_info rx = Some \<lparr> num_results = length xs,
                                total_weight = round_ndigits w 3,
                                scales_used = map scale xs,
                                stages_used = map stage xs \<rparr>"
    by (simp add: rx_def)
  have i2: "voting_info ry = Some \<lparr> num_results = length ys,
                                total_weight = round_ndigits w 3,
                                scales_used = map scale ys,
                                stages_used = map stage ys \<rparr>"
    by (simp add: ry_def)
  show ?thesis
    apply (rule exI [of _ rx])
    apply (rule exI [of _ ry])
    apply (rule exI [of _ "\<lparr> num_results = length xs, total_weight = round_ndigits w 3,
                            scales_used = map scale xs, stages_used = map stage xs \<rparr>"])
    apply (rule exI [of _ "\<lparr> num_results = length ys, total_weight = round_ndigits w 3,
                            scales_used = map scale ys, stages_used = map stage ys \<rparr>"])
    apply (simp only: vx vy f1 f2 f3 f4 f5 f6 i1 i2 voting_info.simps len scales stages)
    done
qed

theorem C2_voting_permutation_witness:
  "mset [attempt_a, attempt_b] = mset [attempt_b, attempt_a]
   \<and> [attempt_a, attempt_b] \<noteq> []
   \<and> sum_list (map (\<lambda>r. confidence (features r)) [attempt_a, attempt_b]) \<noteq> 0
   \<and> (\<exists>rx ry vx vy.
           confidence_weighted_voting [attempt_a, attempt_b] = Some rx
         \<and> confidence_weighted_voting [attempt_b, attempt_a] = Some ry
         \<and> shoulder_rotation (features rx) = shoulder_rotation (features ry)
         \<and> hip_rotation (features rx) = hip_rotation (features ry)
         \<and> x_factor (features rx) = x_factor (features ry)
         \<and> spine_angle (features rx) = spine_angle (features ry)
         \<and> knee_flex (features rx) = knee_flex (features ry)
         \<and> confidence (features rx) = confidence (features ry)
         \<and> voting_info rx = Some vx \<and> voting_info ry = Some vy
         \<and> num_results vx = num_results vy
         \<and> total_weight vx = total_weight vy
         \<and> mset (scales_used vx) = mset (scales_used vy)
         \<and> mset (stages_used vx) = mset (stages_used vy))"
proof -
  have p: "mset [attempt_a, attempt_b] = mset [attempt_b, attempt_a]"
    by simp
  have n: "[attempt_a, attempt_b] \<noteq> []"
    by simp
  have w: "sum_list (map (\<lambda>r. confidence (features r)) [attempt_a, attempt_b]) \<noteq> 0"
    by (simp add: attempt_a_def attempt_b_def)
  from C2_voting_permutation [OF p n w] p n w show ?thesis
    by blast
qed

subsection \<open>Video timeline analysis\<close>

lemma clip_select:
  "select_phase clip_angles clip_phases (\<lambda>p. p = ''top'') = Inr []"
  "select_phase clip_angles clip_phases (\<lambda>p. p = ''impact'') = Inr []"
  "select_phase clip_angles clip_phases (\<lambda>p. p = ''address'') = Inr [clip_angles ! 0]"
  "select_phase clip_angles clip_phases (\<lambda>p. p = ''backswing'') = Inr [clip_angles ! 1]"
  "select_phase clip_angles clip_phases (\<lambda>p. p = ''transition'' \<or> p = ''downswing'') = Inr []"
  by (simp_all add: select_phase_def clip_phases_def clip_angles_def)

lemma faults_low_draw:
  "detect_advanced_faults clip_angles clip_phases draw_first_run = Inr []"
  by (simp add: detect_advanced_faults_def clip_select check_lateral_movement_def Let_def
      draw_first_run_def)

lemma py_round_12: "py_round 12 = 12"
  by (simp add: py_round_def Let_def)

lemma faults_high_draw:
  "detect_advanced_faults clip_angles clip_phases draw_second_run =
     Inr [\<lparr> fault_type = ''sway'', fault_severity = High, fault_value = 12,
            fault_message = SwayMessage 12, fault_fix = ''rotate around a fixed axis'' \<rparr>]"
  by (simp add: detect_advanced_faults_def clip_select check_lateral_movement_def Let_def py_round_12
      draw_second_run_def)

lemma select_from_ok:
  "i + length ps \<le> length xs \<Longrightarrow> \<exists>r. select_from i xs ps pred = Inr r"
proof (induction ps arbitrary: i)
  case Nil show ?case by simp
next
  case (Cons p ps)
  then have "Suc i + length ps \<le> length xs" by simp
  from Cons.IH [OF this] obtain r where "select_from (Suc i) xs ps pred = Inr r" by blast
  moreover have "i < length xs" using Cons.prems by simp
  ultimately show ?case by simp
qed

lemma select_phase_ok:
  "length ps \<le> length xs \<Longrightarrow> \<exists>r. select_phase xs ps pred = Inr r"
  unfolding select_phase_def using select_from_ok [of 0 ps xs pred] by simp

lemma analyze_phases_loop_ok:
  assumes "length ps \<le> length xs"
  shows "\<exists>ss ds. analyze_phases_loop xs ps phases = Inr (ss, ds) \<and> map fst ss = phases"
proof (induction phases)
  case Nil show ?case by simp
next
  case (Cons phase phases)
  obtain r where r: "select_phase xs ps (\<lambda>p. p = phase) = Inr r"
    using select_phase_ok [OF assms] by blast
  obtain ss ds where "analyze_phases_loop xs ps phases = Inr (ss, ds)" "map fst ss = phases"
    using Cons.IH by blast
  then show ?case using r by (simp add: Let_def)
qed

lemma analyze_phases_ok:
  assumes "length ps \<le> length xs"
  shows "\<exists>pa. analyze_phases xs ps = Inr pa \<and> map fst (phase_scores pa) = remdups ps"
proof -
  obtain ss ds where "analyze_phases_loop xs ps (remdups ps) = Inr (ss, ds)"
    "map fst ss = remdups ps"
    using analyze_phases_loop_ok [OF assms] by blast
  then show ?thesis by (simp add: analyze_phases_def)
qed

lemma detect_advanced_faults_ok:
  assumes "length ps \<le> length xs"
  shows "\<exists>fs. detect_advanced_faults xs ps draw = Inr fs"
proof -
  obtain r1 where r1: "select_phase xs ps (\<lambda>p. p = ''top'') = Inr r1"
    using select_phase_ok [OF assms] by blast
  obtain r2 where r2: "select_phase xs ps (\<lambda>p. p = ''impact'') = Inr r2"
    using select_phase_ok [OF assms] by blast
  obtain r3 where r3: "select_phase xs ps (\<lambda>p. p = ''address'') = Inr r3"
    using select_phase_ok [OF assms] by blast
  obtain r4 where r4: "select_phase xs ps (\<lambda>p. p = ''backswing'') = Inr r4"
    using select_phase_ok [OF assms] by blast
  obtain r5 where r5: "select_phase xs ps (\<lambda>p. p \<in> set [''transition'', ''downswing'']) = Inr r5"
    using select_phase_ok [OF assms] by blast
  show ?thesis
    unfolding detect_advanced_faults_def r1 r2 r3 r4 r5 sum.case Let_def by blast
qed

lemma analyze_tempo_ok:
  "fps \<noteq> 0 \<Longrightarrow> \<exists>ta. analyze_tempo_advanced ps fps = Inr ta"
  by (simp add: analyze_tempo_advanced_def Let_def)


lemma comprehensive_analysis_faults:
  assumes "comprehensive_analysis lms xs ps fps draw = Inr res"
  shows "detect_advanced_faults xs ps draw = Inr (vr_faults res)"
  using assms
  by (auto simp: comprehensive_analysis_def Let_def split: sum.splits)

lemma comprehensive_analysis_ok:
  assumes len: "length ps \<le> length xs" and fps: "fps \<noteq> 0"
  shows "\<exists>res. comprehensive_analysis lms xs ps fps draw = Inr res"
proof -
  obtain pa where pa: "analyze_phases xs ps = Inr pa"
    using analyze_phases_ok [OF len] by blast
  obtain ta where ta: "analyze_tempo_advanced ps fps = Inr ta"
    using analyze_tempo_ok [OF fps] by blast
  obtain fs where fs: "detect_advanced_faults xs ps draw = Inr fs"
    using detect_advanced_faults_ok [OF len] by blast
  show ?thesis
    unfolding comprehensive_analysis_def pa ta fs sum.case Let_def by blast
qed

text \<open>
  Claim C5: the same input processed twice gives byte-identical results, video fault
  detection included. \<open>check_lateral_movement\<close> returns a fresh random number on every
  call, so two runs over the same timeline (an address frame and a backswing frame, 30
  fps) differ as soon as one draw is above 0.1 and the other is not: the run that draws
  0.05 reports no fault, the run that draws 0.12 reports a sway fault, and the two
  results differ.
\<close>

theorem C5_random_sway_fault:
  "detect_advanced_faults clip_angles clip_phases draw_first_run = Inr []
   \<and> detect_advanced_faults clip_angles clip_phases draw_second_run =
       Inr [\<lparr> fault_type = ''sway'', fault_severity = High, fault_value = 12,
              fault_message = SwayMessage 12, fault_fix = ''rotate around a fixed axis'' \<rparr>]
   \<and> comprehensive_analysis clip_landmarks clip_angles clip_phases 30 draw_first_run
       \<noteq> comprehensive_analysis clip_landmarks clip_angles clip_phases 30 draw_second_run"
proof -
  have len: "length clip_phases \<le> length clip_angles"
    by (simp add: clip_phases_def clip_angles_def)
  obtain r1 where r1: "comprehensive_analysis clip_landmarks clip_angles clip_phases 30 draw_first_run = Inr r1"
    using comprehensive_analysis_ok [OF len, of 30] by auto
  obtain r2 where r2: "comprehensive_analysis clip_landmarks clip_angles clip_phases 30 draw_second_run = Inr r2"
    using comprehensive_analysis_ok [OF len, of 30] by auto
  have "vr_faults r1 = []"
    using comprehensive_analysis_faults [OF r1] by (simp add: faults_low_draw)
  moreover have "vr_faults r2 \<noteq> []"
    using comprehensive_analysis_faults [OF r2] by (auto simp: faults_high_draw)
  ultimately have "r1 \<noteq> r2" by auto
  then show ?thesis
    by (simp add: r1 r2 faults_low_draw faults_high_draw)
qed















subsection \<open>The cached analyzer\<close>

lemma golf_pose_nth: "i < 33 \<Longrightarrow> golf_pose ! i = pose_point i"
  by (simp add: golf_pose_def)

lemma golf_pose_is_golf: "is_golf_posture golf_pose"
  by (simp add: is_golf_posture_def golf_pose_length golf_pose_nth pose_point_def landmark_at_def Let_def)

lemma standing_not_golf: "\<not> is_golf_posture standing_pose"
  by (simp add: is_golf_posture_def standing_pose_def landmark_at_def Let_def)

lemma golf_pose_angles: "\<exists>a. calculate_golf_angles golf_pose = Inr a"
  by (simp add: calculate_golf_angles_def golf_pose_length Let_def)

lemma decode_golf: "decode_input stub_vision ''golf'' = Inr (Some 4)"
  by (simp add: decode_input_def strip_data_url_def stub_vision_def remove_char_def)

lemma decode_stand: "decode_input stub_vision ''stand'' = Inr (Some 5)"
  by (simp add: decode_input_def strip_data_url_def stub_vision_def remove_char_def)

lemma stub_fields:
  "image_hash stub_vision n = int n"
  "detect_pose stub_vision 4 = Inr (Some golf_pose)"
  "detect_pose stub_vision 5 = Inr (Some standing_pose)"
  by (simp_all add: stub_vision_def)

text \<open>The first analysis of the golf image on a new analyzer fills both cache fields.\<close>

lemma first_golf_call:
  "\<exists>out. analyze_image stub_vision new_analyzer ''golf'' =
          (Output out, \<lparr> last_result = Some (Output out), last_image_hash = Some 4 \<rparr>)
        \<and> detected out"
proof -
  obtain a where a: "calculate_golf_angles golf_pose = Inr a"
    using golf_pose_angles by blast
  show ?thesis
    by (simp add: analyze_image_def decode_golf stub_fields new_analyzer_def
        golf_pose_is_golf a Let_def)
qed

text \<open>
  The image of the standing person on a new analyzer: not a golf posture. After the
  golf image and then the standing person, the hash of the standing person is stored
  next to the result of the golf image, and a further analysis of the standing person
  returns the golf result.
\<close>

lemma fresh_stand_call:
  "fst (analyze_image stub_vision new_analyzer ''stand'') =
     Output \<lparr> detected = False, out_landmarks = [], out_angles = Map.empty,
              out_faults = [], out_score = 0, out_error = Some ''Not a golf posture'' \<rparr>"
  by (simp add: analyze_image_def decode_stand stub_fields new_analyzer_def
      standing_not_golf Let_def)

lemma stale_cache:
  "\<exists>out. detected out
     \<and> fst (analyze_image stub_vision
              (snd (analyze_image stub_vision
                     (snd (analyze_image stub_vision new_analyzer ''golf'')) ''stand''))
              ''stand'') = Output out"
proof -
  obtain out where 1: "analyze_image stub_vision new_analyzer ''golf'' =
          (Output out, \<lparr> last_result = Some (Output out), last_image_hash = Some 4 \<rparr>)"
    and d: "detected out"
    using first_golf_call by blast
  have 2: "snd (analyze_image stub_vision
                  \<lparr> last_result = Some (Output out), last_image_hash = Some 4 \<rparr> ''stand'')
           = \<lparr> last_result = Some (Output out), last_image_hash = Some 5 \<rparr>"
    by (simp add: analyze_image_def decode_stand stub_fields standing_not_golf Let_def)
  have 3: "fst (analyze_image stub_vision
                  \<lparr> last_result = Some (Output out), last_image_hash = Some 5 \<rparr> ''stand'')
           = Output out"
    by (simp add: analyze_image_def decode_stand stub_fields Let_def)
  show ?thesis
    using d by (simp add: 1 2 3)
qed

text \<open>
  Claim C9, as stated: nothing survives an analysis call and a call leaves no observable
  mutable state on the analyzer. \<open>GolfSwingAnalyzer\<close> keeps the last result and the hash
  of the last image on the instance: after the first analysis of a golf image both
  fields are set.
\<close>

theorem C9_state_survives:
  "snd (analyze_image stub_vision new_analyzer ''golf'') \<noteq> new_analyzer
   \<and> last_image_hash (snd (analyze_image stub_vision new_analyzer ''golf'')) = Some 4
   \<and> last_result (snd (analyze_image stub_vision new_analyzer ''golf'')) \<noteq> None"
  using first_golf_call by (auto simp: new_analyzer_def)

text \<open>
  Claim C9, amended: a \<open>GolfSwingAnalyzer\<close> keeps a one-entry result cache
  (\<open>last_result\<close>, \<open>last_image_hash\<close>) across calls. When the cache is not hit (no
  stored result, or the stored hash differs from the hash of the decoded image) the
  result of an analysis is the one a new analyzer returns for the same input; when the
  stored hash equals the hash of the decoded image and a result is stored, the stored
  result is returned and the analyzer is left unchanged.
\<close>

theorem C9_result_cache:
  "((last_result self = None
      \<or> (\<forall>img. decode_input env base64_image = Inr (Some img)
                 \<longrightarrow> last_image_hash self \<noteq> Some (image_hash env img)))
     \<longrightarrow> fst (analyze_image env self base64_image)
         = fst (analyze_image env new_analyzer base64_image))
   \<and> (decode_input env base64_image = Inr (Some img)
       \<longrightarrow> last_image_hash self = Some (image_hash env img)
       \<longrightarrow> last_result self = Some cached
       \<longrightarrow> analyze_image env self base64_image = (cached, self))"
proof (intro conjI impI)
  assume miss: "last_result self = None
      \<or> (\<forall>img. decode_input env base64_image = Inr (Some img)
                 \<longrightarrow> last_image_hash self \<noteq> Some (image_hash env img))"
  show "fst (analyze_image env self base64_image)
         = fst (analyze_image env new_analyzer base64_image)"
  proof (cases "decode_input env base64_image")
    case (Inl e)
    then show ?thesis by (simp add: analyze_image_def)
  next
    case (Inr r)
    show ?thesis
    proof (cases r)
      case None
      with Inr show ?thesis by (simp add: analyze_image_def)
    next
      case (Some im)
      have no_hit: "(if last_image_hash self = Some (image_hash env im)
                     then last_result self else None) = None"
        using miss Inr Some by auto
      have no_hit_new: "(if last_image_hash new_analyzer = Some (image_hash env im)
                     then last_result new_analyzer else None) = None"
        by (simp add: new_analyzer_def)
      show ?thesis
        unfolding analyze_image_def Inr Some Let_def sum.case option.case no_hit no_hit_new
        by (auto split: sum.splits option.splits)
    qed
  qed
next
  assume "decode_input env base64_image = Inr (Some img)"
    and "last_image_hash self = Some (image_hash env img)"
    and "last_result self = Some cached"
  then show "analyze_image env self base64_image = (cached, self)"
    by (simp add: analyze_image_def)
qed

theorem C9_result_cache_witness:
  "decode_input stub_vision ''stand'' = Inr (Some 5)
   \<and> last_image_hash (snd (analyze_image stub_vision new_analyzer ''golf''))
       \<noteq> Some (image_hash stub_vision 5)
   \<and> fst (analyze_image stub_vision (snd (analyze_image stub_vision new_analyzer ''golf'')) ''stand'')
       = fst (analyze_image stub_vision new_analyzer ''stand'')
   \<and> decode_input stub_vision ''golf'' = Inr (Some 4)
   \<and> last_image_hash (snd (analyze_image stub_vision new_analyzer ''golf''))
       = Some (image_hash stub_vision 4)
   \<and> last_result (snd (analyze_image stub_vision new_analyzer ''golf''))
       = Some (fst (analyze_image stub_vision new_analyzer ''golf''))
   \<and> analyze_image stub_vision (snd (analyze_image stub_vision new_analyzer ''golf'')) ''golf''
       = (fst (analyze_image stub_vision new_analyzer ''golf''),
          snd (analyze_image stub_vision new_analyzer ''golf''))"
proof -
  obtain out where 1: "analyze_image stub_vision new_analyzer ''golf'' =
          (Output out, \<lparr> last_result = Some (Output out), last_image_hash = Some 4 \<rparr>)"
    using first_golf_call by blast
  have h: "last_image_hash (snd (analyze_image stub_vision new_analyzer ''golf''))
       = Some (image_hash stub_vision 4)"
    by (simp add: 1 stub_fields)
  have h5: "last_image_hash (snd (analyze_image stub_vision new_analyzer ''golf''))
       \<noteq> Some (image_hash stub_vision 5)"
    by (simp add: 1 stub_fields)
  have r: "last_result (snd (analyze_image stub_vision new_analyzer ''golf''))
       = Some (fst (analyze_image stub_vision new_analyzer ''golf''))"
    by (simp add: 1)
  have miss: "last_result (snd (analyze_image stub_vision new_analyzer ''golf'')) = None
      \<or> (\<forall>img. decode_input stub_vision ''stand'' = Inr (Some img)
                 \<longrightarrow> last_image_hash (snd (analyze_image stub_vision new_analyzer ''golf''))
                     \<noteq> Some (image_hash stub_vision img))"
    using h5 by (simp add: decode_stand)
  have same: "fst (analyze_image stub_vision (snd (analyze_image stub_vision new_analyzer ''golf'')) ''stand'')
       = fst (analyze_image stub_vision new_analyzer ''stand'')"
    using C9_result_cache [of "snd (analyze_image stub_vision new_analyzer ''golf'')"
      stub_vision "''stand''"] miss by blast
  have hit: "analyze_image stub_vision (snd (analyze_image stub_vision new_analyzer ''golf'')) ''golf''
       = (fst (analyze_image stub_vision new_analyzer ''golf''),
          snd (analyze_image stub_vision new_analyzer ''golf''))"
    using C9_result_cache [of "snd (analyze_image stub_vision new_analyzer ''golf'')"
      stub_vision "''golf''" 4 "fst (analyze_image stub_vision new_analyzer ''golf'')"]
      decode_golf h r by blast
  show ?thesis
    using decode_stand h5 same decode_golf h r hit by blast
qed

subsection \<open>Failure results of the enhanced pipeline\<close>

lemma stage_loop_blind:
  assumes "\<forall>threshold img landmarks. env_pose env threshold img \<noteq> Landmarks landmarks"
  shows "stage_loop env img best bc stages = Inr best \<or> (\<exists>e. stage_loop env img best bc stages = Inl e)"
proof (induction stages)
  case Nil show ?case by simp
next
  case (Cons st stages)
  obtain i threshold where st: "st = (i, threshold)" by (cases st)
  show ?case
  proof (cases "env_pose env threshold img")
    case (CreateFails e) then show ?thesis by (simp add: st)
  next
    case (ProcessRaises e) then show ?thesis using Cons.IH by (simp add: st)
  next
    case NoLandmarks then show ?thesis using Cons.IH by (simp add: st)
  next
    case (Landmarks landmarks) then show ?thesis using assms by simp
  qed
qed

lemma multi_stage_blind:
  assumes "\<forall>threshold img landmarks. env_pose env threshold img \<noteq> Landmarks landmarks"
  shows "multi_stage_detection env img = Inr None \<or> (\<exists>e. multi_stage_detection env img = Inl e)"
  unfolding multi_stage_detection_def using stage_loop_blind [OF assms] by blast

lemma scale_loop_blind:
  assumes "\<forall>threshold img landmarks. env_pose env threshold img \<noteq> Landmarks landmarks"
  shows "scale_loop env img scales = Inr [] \<or> (\<exists>e. scale_loop env img scales = Inl e)"
proof (induction scales)
  case Nil show ?case by simp
next
  case (Cons s scales)
  show ?case
  proof (cases "if s \<noteq> 1 then env_resize env img
                   (nat \<lfloor>real (snd (env_shape env img)) * s\<rfloor>, nat \<lfloor>real (fst (env_shape env img)) * s\<rfloor>)
                 else Inr img")
    case (Inl e)
    then show ?thesis by (simp add: Let_def)
  next
    case (Inr scaled)
    from multi_stage_blind [OF assms, of scaled] Cons.IH Inr show ?thesis
      by (auto simp: Let_def)
  qed
qed

lemma analyze_enhanced_blind:
  assumes "\<forall>threshold img landmarks. env_pose env threshold img \<noteq> Landmarks landmarks"
  shows "\<exists>reason quality. analyze_enhanced env base64_image = Failed reason quality"
proof -
  have ms: "rs = []" if "multi_scale_processing env img = Inr rs" for img rs
    using scale_loop_blind [OF assms, of img "[0.8, 1, 1.2]"] that
    unfolding multi_scale_processing_def by auto
  have "analyze_enhanced_body env base64_image = Inr (Succeeded r) \<Longrightarrow> False" for r
    unfolding analyze_enhanced_body_def
    by (auto split: sum.splits option.splits if_splits dest: ms)
  then show ?thesis
    unfolding analyze_enhanced_def
  proof (cases "analyze_enhanced_body env base64_image")
    case (Inl e)
    then show "\<exists>reason quality.
        (case analyze_enhanced_body env base64_image of
           Inl e \<Rightarrow> Failed (AnalysisSystemError e) None
         | Inr result \<Rightarrow> result) = Failed reason quality"
      by simp
  next
    case (Inr b)
    assume no: "\<And>r. analyze_enhanced_body env base64_image = Inr (Succeeded r) \<Longrightarrow> False"
    show "\<exists>reason quality.
        (case analyze_enhanced_body env base64_image of
           Inl e \<Rightarrow> Failed (AnalysisSystemError e) None
         | Inr result \<Rightarrow> result) = Failed reason quality"
    proof (cases b)
      case (Failed reason quality)
      with Inr show ?thesis by simp
    next
      case (Succeeded r)
      with Inr no show ?thesis by blast
    qed
  qed
qed

lemma blind_analysis:
  "analyze_enhanced blind_env ''QUJD'' =
     Failed DetectionFailed
       (Some \<lparr> total_score = 667/10, resolution = (640, 480), sharpness = 100,
               brightness = 128, quality_level = ''medium'' \<rparr>)"
proof -
  have q: "assess_quality_of blind_env (4::nat) =
       Inr \<lparr> total_score = 667/10, resolution = (640, 480), sharpness = 100,
               brightness = 128, quality_level = ''medium'' \<rparr>"
    by (simp add: assess_quality_of_def blind_env_def assess_image_quality_def
        resolution_score_def sharpness_score_def brightness_score_def
        round_ndigits_def py_round_def Let_def)
  have o: "optimize_lighting_conditions blind_env (4::nat) = Inr 4"
    by (simp add: optimize_lighting_conditions_def blind_env_def)
  have st: "stage_loop blind_env img best bc stages = Inr best" for img best bc stages
    by (induction stages) (auto simp: blind_env_def)
  have msd: "multi_stage_detection blind_env img = Inr None" for img
    by (simp add: multi_stage_detection_def st)
  have rs: "env_resize blind_env img sz = Inr img" for img sz
    by (simp add: blind_env_def)
  have m: "multi_scale_processing blind_env (4::nat) = Inr []"
    by (simp add: multi_scale_processing_def msd rs Let_def)
  have d: "strip_data_url ''QUJD'' = Inr ''QUJD''"
    by (simp add: strip_data_url_def)
  have b: "env_b64decode blind_env (pad_base64 (remove_char (CHR 0x09) (remove_char CHR '' ''
               (remove_char (CHR 0x0D) (remove_char (CHR 0x0A) ''QUJD''))))) = Inr [81, 85, 74, 68]"
    by (simp add: blind_env_def pad_base64_def remove_char_def)
  have i: "env_imdecode blind_env [81, 85, 74, 68] = Inr (Some 4)"
    by (simp add: blind_env_def)
  have s: "env_size blind_env 4 \<noteq> 0"
    by (simp add: blind_env_def)
  show ?thesis
    using s by (simp add: analyze_enhanced_def analyze_enhanced_body_def d b i q o m)
qed

text \<open>
  Claim C4, as stated: no failure path at the program boundary raises uncaught, and a
  JSON result is always emitted. The main block opens and reads the input file outside
  any \<open>try\<close>: when that raises, the exception is not caught and nothing is printed.
\<close>

theorem C4_unreadable_file_uncaught:
  "main_program blind_env (FromFile (Inl OSError)) = Inl OSError"
  by (simp add: main_program_def)

text \<open>
  Claim C4, amended: once the input text has been read, the program always emits a
  result: \<open>analyze_enhanced\<close> turns every exception raised inside it into a result
  with \<open>success: False\<close> and an error reason, and when no ensemble attempt finds a pose
  the result is such a failure, whatever else happens. Only a failure to open or read
  the input file named on the command line is raised uncaught.
\<close>

theorem C4_failure_is_structured:
  "((\<forall>threshold img landmarks. env_pose env threshold img \<noteq> Landmarks landmarks)
      \<longrightarrow> (\<exists>reason quality. analyze_enhanced env base64_image = Failed reason quality)
          \<and> \<not> success (analyze_enhanced env base64_image))
   \<and> main_program env (FromStdin text) = Inr (analyze_enhanced env (strip text))
   \<and> main_program env (FromFile (Inr text)) = Inr (analyze_enhanced env (strip text))
   \<and> main_program env (FromFile (Inl e)) = Inl e"
proof (intro conjI impI)
  assume blind: "\<forall>threshold img landmarks. env_pose env threshold img \<noteq> Landmarks landmarks"
  from analyze_enhanced_blind [OF blind]
  show "\<exists>reason quality. analyze_enhanced env base64_image = Failed reason quality"
    by blast
  then show "\<not> success (analyze_enhanced env base64_image)"
    by auto
qed (simp_all add: main_program_def)

theorem C4_failure_is_structured_witness:
  "env_pose blind_env (1/10) (4::nat) = NoLandmarks
   \<and> analyze_enhanced blind_env ''QUJD'' =
       Failed DetectionFailed
         (Some \<lparr> total_score = 667/10, resolution = (640, 480), sharpness = 100,
                 brightness = 128, quality_level = ''medium'' \<rparr>)
   \<and> \<not> success (analyze_enhanced blind_env ''QUJD'')
   \<and> main_program blind_env (FromStdin ''QUJD'') = Inr (analyze_enhanced blind_env ''QUJD'')"
proof -
  have blind: "\<forall>threshold img landmarks. env_pose blind_env threshold img \<noteq> Landmarks landmarks"
    by (simp add: blind_env_def)
  have p: "env_pose blind_env (1/10) (4::nat) = NoLandmarks"
    by (simp add: blind_env_def)
  have s: "strip ''QUJD'' = ''QUJD''"
    by (simp add: strip_def is_space_def)
  from C4_failure_is_structured [of blind_env "''QUJD''" "''QUJD''"] blind
  have "\<not> success (analyze_enhanced blind_env ''QUJD'')"
    and "main_program blind_env (FromStdin ''QUJD'') = Inr (analyze_enhanced blind_env (strip ''QUJD''))"
    by blast+
  then show ?thesis
    using p blind_analysis by (simp add: s)
qed

end
